theory Spec2Isabelle
  imports Complex_Main "HOL-Library.Log_Nat" "HOL-Library.Signed_Division"
begin

section \<open>The data of \<^verbatim>\<open>cmd/check-tls-cert/main.go\<close>\<close>

text \<open>
  \<^verbatim>\<open>Config\<close> is the plugin's configuration struct. Go's \<^verbatim>\<open>int\<close> fields are
  modelled as \<open>int\<close>: the program only compares them with each other and with zero,
  hands them to \<^verbatim>\<open>AddDate\<close> and prints them, so no arithmetic on them can wrap.
\<close>

record Config =
  Host :: string
  TrustedCAFile :: string
  InsecureSkipVerify :: bool
  Port :: int
  Timeout :: int
  Warning :: int
  Critical :: int

text \<open>
  The two fields of \<^verbatim>\<open>tls.Config\<close> that the program writes. A certificate pool is the
  list of PEM blocks it was parsed from; \<open>None\<close> is Go's \<^verbatim>\<open>nil\<close> pool, which
  \<^verbatim>\<open>crypto/tls\<close> reads as "use the host's root CA set".
\<close>

datatype CertPool = CertPool (pool_certs: "string list")

record tls_Config =
  RootCAs :: "CertPool option"
  tls_InsecureSkipVerify :: bool

definition tls_Config_zero :: tls_Config where
  "tls_Config_zero = \<lparr> RootCAs = None, tls_InsecureSkipVerify = False \<rparr>"

text \<open>The check states of the Sensu plugin SDK, in the order of their codes 0 to 3.\<close>

datatype check_state = CheckStateOK | CheckStateWarning | CheckStateCritical | CheckStateUnknown

text \<open>
  Points in time are nanoseconds since the Unix epoch; Go's \<^verbatim>\<open>time.Time\<close> covers
  far more than any certificate date, so the count is an unbounded \<open>int\<close>.
  A certificate is modelled by the one field the program reads.
\<close>

type_synonym Time = int

record Certificate =
  NotAfter :: Time

record Conn =
  PeerCertificates :: "Certificate list"

text \<open>
  Everything the two functions do to the outside world, in the order they do it.
\<close>

datatype event =
    ValidateVar string string
  | LoadCACertsCall string
  | Dial string string tls_Config
  | Printf string
  | Close

text \<open>
  The outside world: the CA-file loader of \<^verbatim>\<open>sensu-go\<close> (a local file read), the
  network behind \<^verbatim>\<open>tls.Dial\<close>, the clock, and the calendar of the host:
  \<open>AddDate w t days\<close> is what \<^verbatim>\<open>t.AddDate(0, 0, days)\<close> returns there. Go computes
  it on the calendar date of \<open>t\<close> in the host's local time zone, so it depends on
  that zone (a day that crosses a change of the UTC offset is not 24 hours long),
  and its arithmetic wraps for day counts near the limits of \<^verbatim>\<open>int\<close>. The theory
  assumes nothing about it; a theorem that needs a property of it says so in a
  hypothesis. A Go \<^verbatim>\<open>error\<close> is the text its \<^verbatim>\<open>Error()\<close> method returns;
  \<open>Inl\<close> carries it.
\<close>

record world =
  LoadCACerts :: "string \<Rightarrow> string + CertPool"
  tls_Dial :: "string \<Rightarrow> string \<Rightarrow> tls_Config \<Rightarrow> string + Conn"
  time_Now :: Time
  AddDate :: "Time \<Rightarrow> int \<Rightarrow> Time"

text \<open>
  The package-level variables \<^verbatim>\<open>plugin\<close>, \<^verbatim>\<open>tlsConfig\<close> and \<^verbatim>\<open>validate\<close>,
  and the trace of events so far. The validator is a variable in the source too
  (\<^verbatim>\<open>main\<close> assigns it); it maps a field and a tag to \<open>None\<close> (valid) or an
  error text.
\<close>

record state =
  plugin :: Config
  tlsConfig :: tls_Config
  validate :: "string \<Rightarrow> string \<Rightarrow> string option"
  trace :: "event list"

definition emit :: "event \<Rightarrow> state \<Rightarrow> state" where
  "emit e s = s\<lparr> trace := trace s @ [e] \<rparr>"

section \<open>checkArgs\<close>

text \<open>
  The function returns a status and an error (\<open>None\<close> is \<^verbatim>\<open>nil\<close>), and the
  updated globals. Each \<^verbatim>\<open>return\<close> of the source is one branch, in the source's
  order.
\<close>

definition checkArgs :: "world \<Rightarrow> state \<Rightarrow> (check_state \<times> string option) \<times> state" where
  "checkArgs w s =
    (if length (Host (plugin s)) = 0 then
       ((CheckStateWarning, Some ''--hostname is required''), s)
     else
       let err = validate s (Host (plugin s)) ''fqdn'';
           s = emit (ValidateVar (Host (plugin s)) ''fqdn'') s
       in
       if err \<noteq> None then
         ((CheckStateWarning, Some ''hostname is not a valid FQDN''), s)
       else if Critical (plugin s) \<le> 0 then
         ((CheckStateWarning, Some ''--critical is required''), s)
       else if Warning (plugin s) \<le> 0 then
         ((CheckStateWarning, Some ''--warning is required''), s)
       else if Warning (plugin s) \<le> Critical (plugin s) then
         ((CheckStateWarning, Some ''warning cannot be lower than Critical value''), s)
       else
         case
           (if length (TrustedCAFile (plugin s)) > 0 then
              (case LoadCACerts w (TrustedCAFile (plugin s)) of
                 Inl err \<Rightarrow>
                   Inl ((CheckStateWarning, Some ''error loading specified CA file''),
                        emit (LoadCACertsCall (TrustedCAFile (plugin s))) s)
               | Inr caCertPool \<Rightarrow>
                   Inr ((emit (LoadCACertsCall (TrustedCAFile (plugin s))) s)
                        \<lparr> tlsConfig := (tlsConfig s)\<lparr> RootCAs := Some caCertPool \<rparr> \<rparr>))
            else Inr s)
         of
           Inl r \<Rightarrow> r
         | Inr s \<Rightarrow>
             ((CheckStateOK, None),
              s\<lparr> tlsConfig :=
                   (tlsConfig s)\<lparr> tls_InsecureSkipVerify := InsecureSkipVerify (plugin s) \<rparr> \<rparr>))"

section \<open>The validator assigned by main\<close>

text \<open>
  \<^verbatim>\<open>main\<close> sets \<^verbatim>\<open>validate = validator.New()\<close>. The \<^verbatim>\<open>fqdn\<close> tag of
  \<^verbatim>\<open>go-playground/validator\<close> rejects the empty string and otherwise matches
  \<^verbatim>\<open>^([a-zA-Z0-9]{1}[a-zA-Z0-9-]{0,62})(\.[a-zA-Z0-9]{1}[a-zA-Z0-9-]{0,62})*?(\.[a-zA-Z]{1}[a-zA-Z0-9]{0,62})\.?$\<close>:
  after an optional final dot, at least two dot-separated labels, the last one
  starting with a letter and free of hyphens.
\<close>

definition is_alpha :: "char \<Rightarrow> bool" where
  "is_alpha c = (c \<in> set ''abcdefghijklmnopqrstuvwxyzABCDEFGHIJKLMNOPQRSTUVWXYZ'')"

definition is_alnum :: "char \<Rightarrow> bool" where
  "is_alnum c = (is_alpha c \<or> c \<in> set ''0123456789'')"

definition is_label :: "string \<Rightarrow> bool" where
  "is_label l =
    (case l of
       [] \<Rightarrow> False
     | c # cs \<Rightarrow> is_alnum c \<and> length cs \<le> 62 \<and> list_all (\<lambda>d. is_alnum d \<or> d = CHR ''-'') cs)"

definition is_tld :: "string \<Rightarrow> bool" where
  "is_tld l =
    (case l of
       [] \<Rightarrow> False
     | c # cs \<Rightarrow> is_alpha c \<and> length cs \<le> 62 \<and> list_all is_alnum cs)"

fun split_dots :: "string \<Rightarrow> string list" where
  "split_dots [] = [] # []"
| "split_dots (c # cs) =
    (if c = CHR ''.'' then [] # split_dots cs
     else (case split_dots cs of [] \<Rightarrow> [c] # [] | l # ls \<Rightarrow> (c # l) # ls))"

definition fqdnRegexRFC1123 :: "string \<Rightarrow> bool" where
  "fqdnRegexRFC1123 val =
    (let body = (if val \<noteq> [] \<and> last val = CHR ''.'' then butlast val else val);
         labels = split_dots body
     in 2 \<le> length labels \<and> list_all is_label (butlast labels) \<and> is_tld (last labels))"

definition isFQDN :: "string \<Rightarrow> bool" where
  "isFQDN val = (if val = [] then False else fqdnRegexRFC1123 val)"

text \<open>Only the \<^verbatim>\<open>fqdn\<close> tag is modelled; the program passes no other.\<close>

definition validator_Var :: "string \<Rightarrow> string \<Rightarrow> string option" where
  "validator_Var field tag =
    (if tag = ''fqdn'' then
       (if isFQDN field then None
        else Some ''Field validation failed on the fqdn tag'')
     else Some ''Undefined validation function'')"

section \<open>The options and their defaults\<close>

text \<open>
  \<^verbatim>\<open>options\<close> binds each flag to a field of \<^verbatim>\<open>plugin\<close> and gives its default;
  the two thresholds have none, so they default to Go's zero value. An invocation
  says, for each flag, whether a value was supplied. The SDK stores the supplied
  value, or else the default, in the bound field.
\<close>

record invocation =
  arg_hostname :: "string option"
  arg_insecure_skip_verify :: "bool option"
  arg_trusted_ca_file :: "string option"
  arg_warning :: "int option"
  arg_critical :: "int option"
  arg_port :: "int option"

definition hostname_Default :: string where
  "hostname_Default = ''http://localhost:80/''"

definition or_default :: "'a option \<Rightarrow> 'a \<Rightarrow> 'a" where
  "or_default v d = (case v of None \<Rightarrow> d | Some x \<Rightarrow> x)"

definition options :: "invocation \<Rightarrow> Config" where
  "options iv =
    \<lparr> Host = or_default (arg_hostname iv) hostname_Default,
      TrustedCAFile = or_default (arg_trusted_ca_file iv) [],
      InsecureSkipVerify = or_default (arg_insecure_skip_verify iv) False,
      Port = or_default (arg_port iv) 443,
      Timeout = 0,
      Warning = or_default (arg_warning iv) 0,
      Critical = or_default (arg_critical iv) 0 \<rparr>"

text \<open>The globals when \<^verbatim>\<open>check.Execute()\<close> has read the options.\<close>

definition initial_state :: "invocation \<Rightarrow> state" where
  "initial_state iv =
    \<lparr> plugin = options iv, tlsConfig = tls_Config_zero,
      validate = validator_Var, trace = [] \<rparr>"

section \<open>Go library functions used by executeCheck\<close>

subsection \<open>fmt.Sprint on an integer\<close>

fun digits :: "nat \<Rightarrow> string" where
  "digits n =
    (if n < 10 then [''0123456789'' ! n]
     else digits (n div 10) @ [''0123456789'' ! (n mod 10)])"

definition Sprint :: "int \<Rightarrow> string" where
  "Sprint i = (if i < 0 then ''-'' @ digits (nat (- i)) else digits (nat i))"

subsection \<open>time.Time and time.Duration\<close>

text \<open>
  A \<^verbatim>\<open>Duration\<close> is an \<^verbatim>\<open>int64\<close> count of nanoseconds. \<^verbatim>\<open>t.Sub(u)\<close> is
  \<open>t - u\<close>, replaced by the largest or smallest duration when the difference does
  not fit (about 292 years either way).
\<close>

definition Hour :: int where
  "Hour = 3600000000000"

definition minDuration :: int where
  "minDuration = - (2 ^ 63)"

definition maxDuration :: int where
  "maxDuration = 2 ^ 63 - 1"

definition Sub :: "Time \<Rightarrow> Time \<Rightarrow> int" where
  "Sub t u =
    (let d = t - u
     in if d < minDuration then minDuration else if maxDuration < d then maxDuration else d)"

definition After :: "Time \<Rightarrow> Time \<Rightarrow> bool" where
  "After t u = (u < t)"

text \<open>
  \<^verbatim>\<open>t.After(u)\<close> compares the two instants. \<open>days_later\<close> is the instant
  \<open>days\<close> times 24 hours after \<open>t\<close>: what \<^verbatim>\<open>AddDate\<close> returns in UTC, for a
  day count that Go's calendar arithmetic does not wrap. It serves the examples.
\<close>

definition days_later :: "Time \<Rightarrow> int \<Rightarrow> Time" where
  "days_later t days = t + days * (24 * Hour)"

subsection \<open>Duration.Hours and the conversion to int64\<close>

text \<open>
  \<^verbatim>\<open>Hours\<close> is computed in \<^verbatim>\<open>float64\<close>:
  \<^verbatim>\<open>hour := d / Hour; nsec := d % Hour; return float64(hour) + float64(nsec)/(60*60*1e9)\<close>.
  A \<^verbatim>\<open>float64\<close> value is modelled by the rational it denotes, and each operation by
  the exact result rounded to the nearest value with a 53-bit significand, ties to
  the even significand. (The values here stay far inside the normal range, so there
  is neither overflow nor a subnormal.) Go's \<^verbatim>\<open>/\<close> and \<^verbatim>\<open>%\<close> on integers
  truncate toward zero: \<open>sdiv\<close> and \<open>smod\<close>.
\<close>

definition round_even :: "rat \<Rightarrow> int" where
  "round_even m =
    (let f = \<lfloor>m\<rfloor>; r = m - of_int f
     in if r < 1 / 2 then f else if 1 / 2 < r then f + 1 else if even f then f else f + 1)"

text \<open>The exponent \<open>e\<close> with \<open>2 ^ e \<le> \<bar>x\<bar> < 2 ^ (e + 1)\<close>, for \<open>x \<noteq> 0\<close>.\<close>

definition binade :: "rat \<Rightarrow> int" where
  "binade x =
    (let k = bitlen (fst (quotient_of \<bar>x\<bar>)) - bitlen (snd (quotient_of \<bar>x\<bar>))
     in if 2 powi k \<le> \<bar>x\<bar> then k else k - 1)"

definition float64 :: "rat \<Rightarrow> rat" where
  "float64 x =
    (if x = 0 then 0
     else let ulp = 2 powi (binade x - 52) in of_int (round_even (x / ulp)) * ulp)"

definition Hours :: "int \<Rightarrow> rat" where
  "Hours d =
    (let hour = d sdiv Hour; nsec = d smod Hour
     in float64 (float64 (of_int hour) + float64 (float64 (of_int nsec) / 3600000000000)))"

text \<open>\<^verbatim>\<open>int64(f)\<close> drops the fraction of \<open>f\<close>.\<close>

definition int64_of_float64 :: "rat \<Rightarrow> int" where
  "int64_of_float64 f = (if 0 \<le> f then \<lfloor>f\<rfloor> else \<lceil>f\<rceil>)"

text \<open>
  The two local variables of executeCheck:
  \<^verbatim>\<open>expiresInHours := int64(cert.NotAfter.Sub(timeNow).Hours())\<close> and
  \<^verbatim>\<open>expiresInDays := int(expiresInHours / 24)\<close>.
\<close>

definition expiresInHours :: "Time \<Rightarrow> Time \<Rightarrow> int" where
  "expiresInHours notAfter timeNow = int64_of_float64 (Hours (Sub notAfter timeNow))"

definition expiresInDays :: "Time \<Rightarrow> Time \<Rightarrow> int" where
  "expiresInDays notAfter timeNow = expiresInHours notAfter timeNow sdiv 24"

section \<open>executeCheck\<close>

text \<open>
  A call either returns or panics. Reading \<^verbatim>\<open>PeerCertificates[0]\<close> of an empty
  slice is a run-time panic in Go; the deferred \<^verbatim>\<open>conn.Close()\<close> runs on every way
  out once the dial has succeeded. \<^verbatim>\<open>fmt.Errorf("%v", err)\<close> is an error with the
  text of \<open>err\<close>.
\<close>

datatype 'a outcome = Return 'a | Panic string

text \<open>
  A call of \<^verbatim>\<open>tls.Dial\<close>: the world answers for the arguments of the call, and the
  call with these same arguments goes on the trace.
\<close>

definition tls_Dial_call ::
  "world \<Rightarrow> string \<Rightarrow> string \<Rightarrow> tls_Config \<Rightarrow> state \<Rightarrow> (string + Conn) \<times> state" where
  "tls_Dial_call w network addr config s =
    (tls_Dial w network addr config, emit (Dial network addr config) s)"

definition executeCheck :: "world \<Rightarrow> state \<Rightarrow> (check_state \<times> string option) outcome \<times> state" where
  "executeCheck w s =
    (let fqdn = Host (plugin s) @ '':'' @ Sprint (Port (plugin s));
         (r, s) = tls_Dial_call w ''tcp'' fqdn (tlsConfig s) s
     in
     case r of
       Inl err \<Rightarrow> (Return (CheckStateCritical, Some err), s)
     | Inr conn \<Rightarrow>
         let timeNow = time_Now w in
         (case PeerCertificates conn of
            [] \<Rightarrow> (Panic ''runtime error: index out of range [0] with length 0'', emit Close s)
          | cert # _ \<Rightarrow>
              if After (AddDate w timeNow (Critical (plugin s))) (NotAfter cert) then
                (Return (CheckStateCritical, None),
                 emit Close (emit (Printf (''critical: cert expires in ''
                   @ Sprint (expiresInDays (NotAfter cert) timeNow) @ '' days'')) s))
              else if After (AddDate w timeNow (Warning (plugin s))) (NotAfter cert) then
                (Return (CheckStateWarning, None),
                 emit Close (emit (Printf (''warning: cert expires in ''
                   @ Sprint (expiresInDays (NotAfter cert) timeNow) @ '' days'')) s))
              else
                (Return (CheckStateOK, None),
                 emit Close (emit (Printf (''certificate for '' @ Host (plugin s) @ '':''
                   @ Sprint (Port (plugin s)) @ '' expires in ''
                   @ Sprint (expiresInDays (NotAfter cert) timeNow) @ '' days'' @ [CHR 0x0A])) s))))"

text \<open>The address that executeCheck dials, its local variable \<^verbatim>\<open>fqdn\<close>.\<close>

abbreviation dial_addr :: "state \<Rightarrow> string" where
  "dial_addr s \<equiv> Host (plugin s) @ '':'' @ Sprint (Port (plugin s))"

section \<open>The check workflow of the plugin SDK\<close>

text \<open>
  \<^verbatim>\<open>sensu.NewCheck(..., checkArgs, executeCheck, false).Execute()\<close> calls the
  validation function and, only when that returns no error, the execute function;
  the status and the error of the last call made decide the exit status and the
  message. An error of the execute function is handed on as
  \<^verbatim>\<open>fmt.Errorf("error executing check: %s", err)\<close>.
\<close>

definition goCheckWorkflow :: "world \<Rightarrow> state \<Rightarrow> (check_state \<times> string option) outcome \<times> state" where
  "goCheckWorkflow w s =
    (case checkArgs w s of
       ((status, Some err), s') \<Rightarrow> (Return (status, Some err), s')
     | ((status, None), s') \<Rightarrow>
         (case executeCheck w s' of
            (Return (status, Some err), s'') \<Rightarrow>
              (Return (status, Some (''error executing check: '' @ err)), s'')
          | r \<Rightarrow> r))"

definition main :: "world \<Rightarrow> invocation \<Rightarrow> (check_state \<times> string option) outcome \<times> state" where
  "main w iv = goCheckWorkflow w (initial_state iv)"

section \<open>The validation contract in the words of the specification\<close>

text \<open>
  The specification names six validation errors and fixes the order of the checks:
  hostname emptiness, hostname syntax, the three threshold checks, the CA file.
  Each check is listed with what makes it fail, the error it reports and the
  outside calls it needs; validation stops at the first check that fails.
\<close>

datatype ValidationError =
    MissingHostname | InvalidHostname | MissingCritical | MissingWarning
  | InvertedThresholds | CAFileLoadError

fun reason :: "ValidationError \<Rightarrow> string" where
  "reason MissingHostname = ''--hostname is required''"
| "reason InvalidHostname = ''hostname is not a valid FQDN''"
| "reason MissingCritical = ''--critical is required''"
| "reason MissingWarning = ''--warning is required''"
| "reason InvertedThresholds = ''warning cannot be lower than Critical value''"
| "reason CAFileLoadError = ''error loading specified CA file''"

definition spec_checks :: "world \<Rightarrow> state \<Rightarrow> (bool \<times> ValidationError \<times> event list) list" where
  "spec_checks w s =
    [(Host (plugin s) = [], MissingHostname, []),
     (validate s (Host (plugin s)) ''fqdn'' \<noteq> None, InvalidHostname,
        [ValidateVar (Host (plugin s)) ''fqdn'']),
     (Critical (plugin s) \<le> 0, MissingCritical, []),
     (Warning (plugin s) \<le> 0, MissingWarning, []),
     (Warning (plugin s) \<le> Critical (plugin s), InvertedThresholds, []),
     (TrustedCAFile (plugin s) \<noteq> [] \<and> isl (LoadCACerts w (TrustedCAFile (plugin s))),
        CAFileLoadError,
        if TrustedCAFile (plugin s) \<noteq> [] then [LoadCACertsCall (TrustedCAFile (plugin s))]
        else [])]"

fun first_failure ::
  "(bool \<times> ValidationError \<times> event list) list \<Rightarrow> ValidationError option \<times> event list" where
  "first_failure [] = (None, [])"
| "first_failure ((fails, err, calls) # checks) =
    (if fails then (Some err, calls)
     else (fst (first_failure checks), calls @ snd (first_failure checks)))"

definition spec_validate :: "world \<Rightarrow> state \<Rightarrow> ValidationError option \<times> event list" where
  "spec_validate w s = first_failure (spec_checks w s)"

text \<open>
  The days remaining in the words of the specification: the difference in whole
  hours, truncated toward zero, then the floor of a 24th of it.
\<close>

definition spec_hoursRemaining :: "Time \<Rightarrow> Time \<Rightarrow> int" where
  "spec_hoursRemaining notAfter now = (notAfter - now) sdiv Hour"

definition spec_daysRemaining :: "Time \<Rightarrow> Time \<Rightarrow> int" where
  "spec_daysRemaining notAfter now = \<lfloor>(of_int (spec_hoursRemaining notAfter now) :: rat) / 24\<rfloor>"

text \<open>
  The durations for which the specification's whole hours may be missed: at least
  4096 hours long and less than 1000 ns short of the next whole hour.
\<close>

definition near_next_hour :: "int \<Rightarrow> bool" where
  "near_next_hour d = (4096 * Hour \<le> \<bar>d\<bar> \<and> Hour - 1000 < \<bar>d smod Hour\<bar>)"

text \<open>
  The TLS trust policy in the words of the specification (4.1): the root
  certificates are the bundle loaded from the trusted CA file, or the platform
  default (\<open>None\<close>) when no file is given, and the flag is copied from the
  configuration. (When a given file does not load, validation fails and there is
  no policy; the value here is then of no use.)
\<close>

definition TLSTrustPolicy :: "world \<Rightarrow> Config \<Rightarrow> tls_Config" where
  "TLSTrustPolicy w c =
    \<lparr> RootCAs =
        (if TrustedCAFile c = [] then None
         else (case LoadCACerts w (TrustedCAFile c) of Inl err \<Rightarrow> None | Inr pool \<Rightarrow> Some pool)),
      tls_InsecureSkipVerify = InsecureSkipVerify c \<rparr>"

section \<open>Observations on a trace\<close>

fun dialed :: "event list \<Rightarrow> tls_Config list" where
  "dialed [] = []"
| "dialed (Dial network addr config # es) = config # dialed es"
| "dialed (e # es) = dialed es"

fun printed :: "event list \<Rightarrow> string list" where
  "printed [] = []"
| "printed (Printf text # es) = text # printed es"
| "printed (e # es) = printed es"

section \<open>A concrete world, after the repository's tests\<close>

text \<open>
  The tests run the two functions against a local TLS server whose certificate is
  signed by a throw-away CA written to a temporary file. Here the file is
  \<^verbatim>\<open>/tmp/ca.pem\<close>; the server presents the given chain; the handshake succeeds when
  verification is skipped or the test CA is trusted; the host
  \<^verbatim>\<open>invalid.example.test\<close> does not resolve; the host's time zone is UTC.
\<close>

definition test_LoadCACerts :: "string \<Rightarrow> string + CertPool" where
  "test_LoadCACerts path =
    (if path = ''/tmp/ca.pem'' then Inr (CertPool [''Test CA''])
     else Inl ''open /nonexistent/ca.pem: no such file or directory'')"

definition test_Dial :: "Certificate list \<Rightarrow> string \<Rightarrow> string \<Rightarrow> tls_Config \<Rightarrow> string + Conn" where
  "test_Dial chain network addr config =
    (if addr = ''invalid.example.test:443'' then
       Inl ''dial tcp: lookup invalid.example.test: no such host''
     else if tls_InsecureSkipVerify config \<or> RootCAs config = Some (CertPool [''Test CA'']) then
       Inr \<lparr> PeerCertificates = chain \<rparr>
     else Inl ''tls: failed to verify certificate: x509: certificate signed by unknown authority'')"

text \<open>A clock reading for the examples: 2023-11-14 22:13:20 UTC.\<close>

definition test_epoch :: Time where
  "test_epoch = 1700000000 * 1000000000"

definition test_world :: "Time \<Rightarrow> Certificate list \<Rightarrow> world" where
  "test_world now chain =
    \<lparr> LoadCACerts = test_LoadCACerts, tls_Dial = test_Dial chain, time_Now = now,
      AddDate = days_later \<rparr>"

definition test_config :: "string \<Rightarrow> int \<Rightarrow> int \<Rightarrow> string \<Rightarrow> bool \<Rightarrow> Config" where
  "test_config host warning critical caFile insecure =
    \<lparr> Host = host, TrustedCAFile = caFile, InsecureSkipVerify = insecure, Port = 443,
      Timeout = 0, Warning = warning, Critical = critical \<rparr>"

text \<open>The globals as the tests set them before a call: a zero \<^verbatim>\<open>tlsConfig\<close>.\<close>

definition state_with :: "Config \<Rightarrow> state" where
  "state_with c =
    \<lparr> plugin = c, tlsConfig = tls_Config_zero, validate = validator_Var, trace = [] \<rparr>"

text \<open>The globals that validation of the given configuration leaves behind.\<close>

definition validated :: "world \<Rightarrow> Config \<Rightarrow> state" where
  "validated w c = snd (checkArgs w (state_with c))"

definition given_hostname :: "string option \<Rightarrow> invocation" where
  "given_hostname h =
    \<lparr> arg_hostname = h, arg_insecure_skip_verify = None, arg_trusted_ca_file = None,
      arg_warning = Some 30, arg_critical = Some 7, arg_port = None \<rparr>"

section \<open>Basic facts\<close>

lemma plugin_emit [simp]: "plugin (emit e s) = plugin s"
  by (simp add: emit_def)

lemma tlsConfig_emit [simp]: "tlsConfig (emit e s) = tlsConfig s"
  by (simp add: emit_def)

lemma validate_emit [simp]: "validate (emit e s) = validate s"
  by (simp add: emit_def)

lemma trace_emit [simp]: "trace (emit e s) = trace s @ [e]"
  by (simp add: emit_def)

lemma dialed_append [simp]: "dialed (xs @ ys) = dialed xs @ dialed ys"
  by (induction xs rule: dialed.induct) simp_all

lemma printed_append [simp]: "printed (xs @ ys) = printed xs @ printed ys"
  by (induction xs rule: printed.induct) simp_all


text \<open>The test hosts are accepted by the validator, the default hostname is not.\<close>

lemma example_com_is_fqdn: "validator_Var ''example.com'' ''fqdn'' = None"
  by code_simp

lemma default_hostname_not_fqdn: "validator_Var hostname_Default ''fqdn'' \<noteq> None"
  by code_simp

section \<open>What checkArgs returns\<close>



lemma checkArgs_trace:
  "trace (snd (checkArgs w s)) = trace s @ snd (spec_validate w s)"
  by (simp add: checkArgs_def spec_validate_def spec_checks_def Let_def split: sum.splits)

lemma checkArgs_plugin: "plugin (snd (checkArgs w s)) = plugin s"
  by (simp add: checkArgs_def Let_def split: sum.splits)

lemma checkArgs_no_dial: "dialed (trace (snd (checkArgs w s))) = dialed (trace s)"
  by (simp add: checkArgs_trace spec_validate_def spec_checks_def)

lemma checkArgs_tlsConfig_on_error:
  "snd (fst (checkArgs w s)) \<noteq> None \<Longrightarrow> tlsConfig (snd (checkArgs w s)) = tlsConfig s"
  by (auto simp add: checkArgs_def Let_def split: sum.splits if_splits)

lemma checkArgs_tlsConfig_on_success:
  assumes "snd (fst (checkArgs w s)) = None"
  shows "tls_InsecureSkipVerify (tlsConfig (snd (checkArgs w s))) = InsecureSkipVerify (plugin s)"
    and "TrustedCAFile (plugin s) = [] \<Longrightarrow>
           RootCAs (tlsConfig (snd (checkArgs w s))) = RootCAs (tlsConfig s)"
    and "TrustedCAFile (plugin s) \<noteq> [] \<Longrightarrow>
           LoadCACerts w (TrustedCAFile (plugin s))
             = Inr (the (RootCAs (tlsConfig (snd (checkArgs w s)))))
           \<and> RootCAs (tlsConfig (snd (checkArgs w s))) \<noteq> None"
  using assms by (auto simp add: checkArgs_def Let_def split: sum.splits if_splits)

section \<open>What executeCheck returns\<close>


lemma executeCheck_connected:
  assumes "tls_Dial w ''tcp'' (dial_addr s) (tlsConfig s) = Inr conn"
    and "PeerCertificates conn = cert # rest"
  shows "fst (executeCheck w s) =
    Return (if After (AddDate w (time_Now w) (Critical (plugin s))) (NotAfter cert)
              then CheckStateCritical
            else if After (AddDate w (time_Now w) (Warning (plugin s))) (NotAfter cert)
              then CheckStateWarning
            else CheckStateOK, None)"
  using assms by (simp add: executeCheck_def tls_Dial_call_def Let_def)

lemma executeCheck_dialed:
  "dialed (trace (snd (executeCheck w s))) = dialed (trace s) @ [tlsConfig s]"
  by (simp add: executeCheck_def tls_Dial_call_def Let_def split: sum.splits list.splits)

lemma executeCheck_printed:
  assumes "tls_Dial w ''tcp'' (dial_addr s) (tlsConfig s) = Inr conn"
    and "PeerCertificates conn = cert # rest"
  shows "\<exists>pre post. printed (trace (snd (executeCheck w s))) = printed (trace s)
    @ [pre @ Sprint (expiresInDays (NotAfter cert) (time_Now w)) @ '' days'' @ post]"
proof -
  let ?days = "Sprint (expiresInDays (NotAfter cert) (time_Now w))"
  consider (critical) "After (AddDate w (time_Now w) (Critical (plugin s))) (NotAfter cert)"
    | (warning) "\<not> After (AddDate w (time_Now w) (Critical (plugin s))) (NotAfter cert)"
        "After (AddDate w (time_Now w) (Warning (plugin s))) (NotAfter cert)"
    | (ok) "\<not> After (AddDate w (time_Now w) (Critical (plugin s))) (NotAfter cert)"
        "\<not> After (AddDate w (time_Now w) (Warning (plugin s))) (NotAfter cert)"
    by blast
  then show ?thesis
  proof cases
    case critical
    with assms have "printed (trace (snd (executeCheck w s))) = printed (trace s)
        @ [''critical: cert expires in '' @ ?days @ '' days'' @ []]"
      by (simp add: executeCheck_def tls_Dial_call_def Let_def)
    then show ?thesis by blast
  next
    case warning
    with assms have "printed (trace (snd (executeCheck w s))) = printed (trace s)
        @ [''warning: cert expires in '' @ ?days @ '' days'' @ []]"
      by (simp add: executeCheck_def tls_Dial_call_def Let_def)
    then show ?thesis by blast
  next
    case ok
    with assms have "printed (trace (snd (executeCheck w s))) = printed (trace s)
        @ [(''certificate for '' @ Host (plugin s) @ '':'' @ Sprint (Port (plugin s))
              @ '' expires in '') @ ?days @ '' days'' @ [CHR 0x0A]]"
      by (simp add: executeCheck_def tls_Dial_call_def Let_def)
    then show ?thesis by blast
  qed
qed

section \<open>The repository's tests, run on the model\<close>

text \<open>
  The table of \<^verbatim>\<open>TestCheckArgs\<close>: each configuration with the status and error
  the test expects, and the TLS configuration it expects after a success.
\<close>

lemma TestCheckArgs:
  "fst (checkArgs (test_world test_epoch []) (state_with (test_config [] 30 7 [] False)))
     = (CheckStateWarning, Some ''--hostname is required'')"
  "fst (checkArgs (test_world test_epoch []) (state_with (test_config ''not a valid fqdn!'' 30 7 [] False)))
     = (CheckStateWarning, Some ''hostname is not a valid FQDN'')"
  "fst (checkArgs (test_world test_epoch []) (state_with (test_config ''example.com'' 30 0 [] False)))
     = (CheckStateWarning, Some ''--critical is required'')"
  "fst (checkArgs (test_world test_epoch []) (state_with (test_config ''example.com'' 30 (- 1) [] False)))
     = (CheckStateWarning, Some ''--critical is required'')"
  "fst (checkArgs (test_world test_epoch []) (state_with (test_config ''example.com'' 0 7 [] False)))
     = (CheckStateWarning, Some ''--warning is required'')"
  "fst (checkArgs (test_world test_epoch []) (state_with (test_config ''example.com'' (- 1) 7 [] False)))
     = (CheckStateWarning, Some ''--warning is required'')"
  "fst (checkArgs (test_world test_epoch []) (state_with (test_config ''example.com'' 7 30 [] False)))
     = (CheckStateWarning, Some ''warning cannot be lower than Critical value'')"
  "fst (checkArgs (test_world test_epoch []) (state_with (test_config ''example.com'' 7 7 [] False)))
     = (CheckStateWarning, Some ''warning cannot be lower than Critical value'')"
  "fst (checkArgs (test_world test_epoch []) (state_with (test_config ''example.com'' 30 7 [] False)))
     = (CheckStateOK, None)"
  "fst (checkArgs (test_world test_epoch []) (state_with (test_config ''example.com'' 30 7 [] True)))
     = (CheckStateOK, None)"
  "tlsConfig (validated (test_world test_epoch []) (test_config ''example.com'' 30 7 [] True))
     = \<lparr> RootCAs = None, tls_InsecureSkipVerify = True \<rparr>"
  "fst (checkArgs (test_world test_epoch [])
      (state_with (test_config ''example.com'' 30 7 ''/nonexistent/ca.pem'' False)))
     = (CheckStateWarning, Some ''error loading specified CA file'')"
  "fst (checkArgs (test_world test_epoch []) (state_with (test_config ''example.com'' 30 7 ''/tmp/ca.pem'' False)))
     = (CheckStateOK, None)"
  "tlsConfig (validated (test_world test_epoch []) (test_config ''example.com'' 30 7 ''/tmp/ca.pem'' False))
     = \<lparr> RootCAs = Some (CertPool [''Test CA'']), tls_InsecureSkipVerify = False \<rparr>"
  unfolding validated_def by code_simp+

text \<open>
  The table of \<^verbatim>\<open>TestExecuteCheck\<close>, which sets \<^verbatim>\<open>tlsConfig\<close> by hand and calls
  executeCheck alone: certificates that expire in 3, 15 and 365 days against the
  thresholds 30 and 7, a host that does not resolve, and a server verified against
  the test CA.
\<close>

lemma TestExecuteCheck:
  "fst (executeCheck (test_world test_epoch [\<lparr>NotAfter = test_epoch + 3 * (24 * Hour)\<rparr>])
      ((state_with (test_config ''127.0.0.1'' 30 7 [] True))
         \<lparr> tlsConfig := \<lparr> RootCAs = None, tls_InsecureSkipVerify = True \<rparr> \<rparr>))
     = Return (CheckStateCritical, None)"
  "fst (executeCheck (test_world test_epoch [\<lparr>NotAfter = test_epoch + 15 * (24 * Hour)\<rparr>])
      ((state_with (test_config ''127.0.0.1'' 30 7 [] True))
         \<lparr> tlsConfig := \<lparr> RootCAs = None, tls_InsecureSkipVerify = True \<rparr> \<rparr>))
     = Return (CheckStateWarning, None)"
  "fst (executeCheck (test_world test_epoch [\<lparr>NotAfter = test_epoch + 365 * (24 * Hour)\<rparr>])
      ((state_with (test_config ''127.0.0.1'' 30 7 [] True))
         \<lparr> tlsConfig := \<lparr> RootCAs = None, tls_InsecureSkipVerify = True \<rparr> \<rparr>))
     = Return (CheckStateOK, None)"
  "fst (executeCheck (test_world test_epoch [\<lparr>NotAfter = test_epoch + 365 * (24 * Hour)\<rparr>])
      (state_with (test_config ''invalid.example.test'' 30 7 [] False)))
     = Return (CheckStateCritical, Some ''dial tcp: lookup invalid.example.test: no such host'')"
  "fst (executeCheck (test_world test_epoch [\<lparr>NotAfter = test_epoch + 365 * (24 * Hour)\<rparr>])
      ((state_with (test_config ''localhost.localdomain'' 30 7 [] False))
         \<lparr> tlsConfig := \<lparr> RootCAs = Some (CertPool [''Test CA'']), tls_InsecureSkipVerify = False \<rparr> \<rparr>))
     = Return (CheckStateOK, None)"
  by code_simp+

section \<open>Rounding to float64\<close>

text \<open>
  Facts about the model of \<^verbatim>\<open>float64\<close>: rounding to the nearest integer moves a
  value by at most a half and is odd; the binade brackets the magnitude; the
  rounding error of a value below \<open>2 ^ n\<close> is at most \<open>2 ^ (n - 54)\<close>; rounding
  never crosses an integer below \<open>2 ^ 53\<close>, and such integers are exact.
\<close>

lemma round_even_bounds: "\<bar>of_int (round_even m) - m\<bar> \<le> 1 / 2"
proof -
  have "of_int \<lfloor>m\<rfloor> \<le> m" "m < of_int \<lfloor>m\<rfloor> + 1"
    by linarith+
  then show ?thesis
    unfolding round_even_def Let_def by (simp add: abs_le_iff)
qed

lemma round_even_ge_floor: "\<lfloor>m\<rfloor> \<le> round_even m"
  by (simp add: round_even_def Let_def)

lemma round_even_ge_int: "of_int k \<le> m \<Longrightarrow> k \<le> round_even m"
  using round_even_ge_floor [of m] le_floor_iff [of k m] by linarith

lemma round_even_of_int [simp]: "round_even (of_int k) = k"
  by (simp add: round_even_def)

lemma round_even_minus: "round_even (- m) = - round_even m"
proof (cases "m = of_int \<lfloor>m\<rfloor>")
  case True
  then obtain k where k: "m = of_int k" ..
  have "round_even (of_int (- k)) = - k"
    by (rule round_even_of_int)
  then show ?thesis
    by (simp add: k)
next
  case False
  define f where "f = \<lfloor>m\<rfloor>"
  define r where "r = m - of_int f"
  have "of_int f \<le> m" "m < of_int f + 1"
    unfolding f_def by linarith+
  moreover from False have "of_int f \<noteq> m"
    unfolding f_def by (rule not_sym)
  ultimately have r: "0 < r" "r < 1"
    by (simp_all add: r_def)
  have m: "m = of_int f + r"
    by (simp add: r_def)
  have fm: "\<lfloor>- m\<rfloor> = - f - 1"
    using r by (intro floor_unique) (simp_all add: m)
  have pos: "round_even m =
      (if r < 1 / 2 then f else if 1 / 2 < r then f + 1 else if even f then f else f + 1)"
    by (simp add: round_even_def Let_def f_def r_def)
  have neg: "round_even (- m) =
      (if 1 - r < 1 / 2 then - f - 1 else if 1 / 2 < 1 - r then - f
       else if even (- f - 1) then - f - 1 else - f)"
    by (simp add: round_even_def Let_def fm) (simp add: m)
  show ?thesis
    unfolding pos neg using r by auto
qed

lemma bitlen_powi_bounds:
  assumes "0 < n"
  shows "2 powi (bitlen n - 1) \<le> (of_int n :: rat)" and "(of_int n :: rat) < 2 powi (bitlen n)"
proof -
  from assms have b: "1 \<le> bitlen n"
    by (simp add: bitlen_alt_def)
  from bitlen_bounds [OF assms] have "2 ^ nat (bitlen n - 1) \<le> n" "n < 2 ^ nat (bitlen n)"
    by simp_all
  then have "(of_int (2 ^ nat (bitlen n - 1)) :: rat) \<le> of_int n"
    "(of_int n :: rat) < of_int (2 ^ nat (bitlen n))"
    by (simp_all only: of_int_le_iff of_int_less_iff)
  then show "2 powi (bitlen n - 1) \<le> (of_int n :: rat)" "(of_int n :: rat) < 2 powi (bitlen n)"
    using b by (simp_all add: power_int_nonneg_exp)
qed

lemma binade_bounds:
  assumes "x \<noteq> 0"
  shows "2 powi (binade x) \<le> \<bar>x\<bar>" and "\<bar>x\<bar> < 2 powi (binade x + 1)"
proof -
  obtain p q where pq: "quotient_of \<bar>x\<bar> = (p, q)" by (cases "quotient_of \<bar>x\<bar>")
  then have q: "0 < q" and x: "\<bar>x\<bar> = of_int p / of_int q"
    by (simp_all add: quotient_of_denom_pos quotient_of_div)
  from assms have "0 < \<bar>x\<bar>" by simp
  with q x have p: "0 < p"
    by (simp add: zero_less_divide_iff)
  let ?k = "bitlen p - bitlen q"
  note P = bitlen_powi_bounds [OF p] and Q = bitlen_powi_bounds [OF q]
  have qpos: "(0::rat) < of_int q" using q by simp
  have "\<bar>x\<bar> < 2 powi bitlen p / of_int q"
    unfolding x using P(2) qpos by (simp add: divide_strict_right_mono)
  also have "\<dots> \<le> 2 powi bitlen p / 2 powi (bitlen q - 1)"
    using Q(1) by (simp add: frac_le)
  also have "\<dots> = 2 powi (?k + 1)"
    by (simp add: power_int_diff power_int_add)
  finally have upper: "\<bar>x\<bar> < 2 powi (?k + 1)" .
  have "2 powi (?k - 1) = 2 powi (bitlen p - 1) / (2 powi bitlen q :: rat)"
    by (simp add: power_int_diff)
  also have "\<dots> \<le> of_int p / 2 powi bitlen q"
    using P(1) by (simp add: divide_right_mono)
  also have "\<dots> \<le> of_int p / of_int q"
    using Q(2) p qpos by (simp add: frac_le)
  finally have lower: "2 powi (?k - 1) \<le> \<bar>x\<bar>"
    by (simp add: x)
  show "2 powi (binade x) \<le> \<bar>x\<bar>"
    using lower by (simp add: binade_def pq Let_def)
  show "\<bar>x\<bar> < 2 powi (binade x + 1)"
    using upper by (auto simp add: binade_def pq Let_def)
qed

lemma binade_less:
  assumes "x \<noteq> 0" and "\<bar>x\<bar> < 2 powi n"
  shows "binade x < n"
proof -
  have less: "(2::rat) powi binade x < 2 powi n"
    using binade_bounds(1) [OF assms(1)] assms(2) by simp
  show ?thesis
  proof (rule ccontr)
    assume "\<not> binade x < n"
    then have "(2::rat) powi n \<le> 2 powi binade x"
      by (intro power_int_increasing) simp_all
    with less show False by simp
  qed
qed

lemma ulp_inverse:
  assumes "b \<le> 52"
  shows "1 / (2::rat) powi (b - 52) = 2 ^ nat (52 - b)"
proof -
  from assms have "b - 52 = - int (nat (52 - b))"
    by simp
  then have "(2::rat) powi (b - 52) = inverse (2 ^ nat (52 - b))"
    by (simp only: power_int_minus power_int_of_nat)
  then show ?thesis
    by (simp add: field_simps)
qed

lemma float64_zero [simp]: "float64 0 = 0"
  by (simp add: float64_def)

lemma float64_minus: "float64 (- x) = - float64 x"
  by (simp add: float64_def binade_def round_even_minus Let_def)

lemma float64_error:
  assumes "\<bar>x\<bar> < 2 powi n"
  shows "\<bar>float64 x - x\<bar> \<le> 2 powi (n - 54)"
proof (cases "x = 0")
  case True
  then show ?thesis by simp
next
  case False
  let ?u = "(2::rat) powi (binade x - 52)"
  have u: "0 < ?u" by simp
  have "binade x - 52 \<le> n - 53"
    using binade_less [OF False assms] by simp
  then have ulp: "?u \<le> 2 powi (n - 53)"
    by (intro power_int_increasing) simp_all
  have "float64 x - x = (of_int (round_even (x / ?u)) - x / ?u) * ?u"
    using False by (simp add: float64_def Let_def algebra_simps)
  then have "\<bar>float64 x - x\<bar> = \<bar>of_int (round_even (x / ?u)) - x / ?u\<bar> * ?u"
    by (simp add: abs_mult)
  also have "\<dots> \<le> 1 / 2 * ?u"
    using round_even_bounds [of "x / ?u"] by (intro mult_right_mono) simp_all
  also have "\<dots> \<le> 1 / 2 * 2 powi (n - 53)"
    using ulp by simp
  also have "\<dots> = 2 powi (n - 54)"
    by (simp add: power_int_diff)
  finally show ?thesis .
qed

lemma float64_ge_int:
  assumes "of_int k \<le> x" and "\<bar>x\<bar> < 2 powi 53"
  shows "of_int k \<le> float64 x"
proof (cases "x = 0")
  case True
  with assms show ?thesis by simp
next
  case False
  let ?j = "nat (52 - binade x)"
  let ?u = "(2::rat) powi (binade x - 52)"
  have b: "binade x \<le> 52"
    using binade_less [OF False assms(2)] by simp
  then have inv: "1 / ?u = 2 ^ ?j"
    by (rule ulp_inverse)
  have "of_int (k * 2 ^ ?j) = of_int k * (1 / ?u)"
    by (simp add: inv)
  also have "\<dots> \<le> x / ?u"
    using assms(1) by (simp add: divide_right_mono)
  finally have "k * 2 ^ ?j \<le> round_even (x / ?u)"
    by (rule round_even_ge_int)
  then have "(of_int (k * 2 ^ ?j) :: rat) \<le> of_int (round_even (x / ?u))"
    by (simp only: of_int_le_iff)
  then have "of_int (k * 2 ^ ?j) * ?u \<le> of_int (round_even (x / ?u)) * ?u"
    by (intro mult_right_mono) simp_all
  moreover have "of_int (k * 2 ^ ?j) * ?u = of_int k"
    using inv by (simp add: field_simps)
  moreover have "float64 x = of_int (round_even (x / ?u)) * ?u"
    using False by (simp add: float64_def Let_def)
  ultimately show ?thesis
    by linarith
qed

lemma float64_of_int:
  assumes "\<bar>k\<bar> < 2 ^ 53"
  shows "float64 (of_int k) = of_int k"
proof (cases "k = 0")
  case True
  then show ?thesis by simp
next
  case False
  let ?x = "of_int k :: rat"
  let ?j = "nat (52 - binade ?x)"
  let ?u = "(2::rat) powi (binade ?x - 52)"
  have "\<bar>?x\<bar> < 2 powi 53"
    using assms by (simp flip: of_int_abs add: of_int_less_numeral_power_cancel_iff)
  with False have b: "binade ?x \<le> 52"
    using binade_less [of ?x 53] by simp
  then have inv: "1 / ?u = 2 ^ ?j"
    by (rule ulp_inverse)
  then have "?x / ?u = of_int (k * 2 ^ ?j)"
    by (simp add: field_simps)
  then have "round_even (?x / ?u) = k * 2 ^ ?j"
    by (simp only: round_even_of_int)
  moreover have "of_int (k * 2 ^ ?j) * ?u = ?x"
    using inv by (simp add: field_simps)
  ultimately show ?thesis
    using False by (simp add: float64_def Let_def)
qed

section \<open>Duration.Hours and whole hours\<close>

text \<open>
  \<^verbatim>\<open>Hours\<close> of a duration lies between its whole hours and the next whole hour,
  both included, so the conversion to \<^verbatim>\<open>int64\<close> gives the whole hours, truncated
  toward zero, or one hour more in magnitude. The two roundings cannot carry the
  value to the next whole hour when the duration is shorter than 4096 hours, or
  when it is at least 1000 ns short of the next whole hour.
\<close>

lemma float64_le_int:
  assumes "x \<le> of_int k" and "\<bar>x\<bar> < 2 powi 53"
  shows "float64 x \<le> of_int k"
proof -
  have "of_int (- k) \<le> - x" "\<bar>- x\<bar> < 2 powi 53"
    using assms by simp_all
  from float64_ge_int [OF this] show ?thesis
    by (simp add: float64_minus)
qed

lemma int64_of_float64_minus: "int64_of_float64 (- f) = - int64_of_float64 f"
  by (cases "f = 0") (auto simp add: int64_of_float64_def ceiling_minus floor_minus)

lemma Hours_minus: "Hours (- d) = - Hours d"
proof -
  have "(- d) sdiv Hour = - (d sdiv Hour)" "(- d) smod Hour = - (d smod Hour)"
    by (simp_all add: signed_divide_int_def signed_modulo_int_def)
  moreover have "float64 (- a - b) = - float64 (a + b)" for a b
    using float64_minus [of "a + b"] by simp
  ultimately show ?thesis
    by (simp add: Hours_def Let_def float64_minus flip: minus_divide_left)
qed

lemma sdiv_smod_nonneg:
  assumes "0 \<le> d"
  shows "d sdiv Hour = d div Hour" and "d smod Hour = d mod Hour"
  using assms by (simp_all add: signed_divide_int_def signed_modulo_int_def Hour_def sgn_if)

lemma Hours_bounds:
  assumes "0 \<le> d" and "d \<le> 2 ^ 63"
  shows "of_int (d div Hour) \<le> Hours d"
    and "Hours d \<le> of_int (d div Hour) + 1"
    and "d < 4096 * Hour \<or> d mod Hour \<le> Hour - 1000 \<Longrightarrow> Hours d < of_int (d div Hour) + 1"
proof -
  define h where "h = d div Hour"
  define n where "n = d mod Hour"
  define q :: rat where "q = of_int n / 3600000000000"
  define s :: rat where "s = of_int h + float64 q"
  have h: "0 \<le> h" "h \<le> 2562047"
    using assms unfolding h_def Hour_def by simp_all
  have n: "0 \<le> n" "n \<le> 3599999999999"
    using pos_mod_bound [of Hour d] by (simp_all add: n_def Hour_def)
  have fh: "float64 (of_int h) = of_int h"
    using h by (intro float64_of_int) simp
  have fn: "float64 (of_int n) = of_int n"
    using n by (intro float64_of_int) simp
  have Hours: "Hours d = float64 s"
    by (simp add: Hours_def Let_def sdiv_smod_nonneg [OF assms(1)] fh fn s_def q_def
        flip: h_def n_def)
  have q: "0 \<le> q" "q \<le> 1 - 1 / 3600000000000"
    using n by (simp_all add: q_def field_simps)
  then have "\<bar>q\<bar> < 2 powi 0"
    by simp
  from float64_error [OF this] have eq: "\<bar>float64 q - q\<bar> \<le> 1 / 18014398509481984"
    by (simp add: power_int_minus_divide)
  have fq0: "0 \<le> float64 q"
    using float64_ge_int [of 0 q] q by simp
  have fq1: "float64 q \<le> 1"
    using float64_le_int [of q 1] q by simp
  have h': "(0::rat) \<le> of_int h" "(of_int h :: rat) \<le> 2562047"
    using h by simp_all
  have s: "of_int h \<le> s" "s \<le> of_int (h + 1)"
    using fq0 fq1 by (simp_all add: s_def)
  have "\<bar>s\<bar> < 4194304"
    using s h' by simp
  then have abs_s: "\<bar>s\<bar> < 2 powi 22"
    by simp
  then have small: "\<bar>s\<bar> < 2 powi 53"
    by simp
  from float64_ge_int [OF s(1) small] have lower: "of_int h \<le> float64 s" .
  from float64_le_int [OF s(2) small] have upper: "float64 s \<le> of_int h + 1"
    by simp
  from lower upper show "of_int (d div Hour) \<le> Hours d" "Hours d \<le> of_int (d div Hour) + 1"
    by (simp_all add: Hours h_def)
  show "Hours d < of_int (d div Hour) + 1"
    if "d < 4096 * Hour \<or> d mod Hour \<le> Hour - 1000"
    using that
  proof
    assume "d < 4096 * Hour"
    then have "h \<le> 4095"
      unfolding h_def Hour_def by linarith
    then have "(of_int h :: rat) \<le> 4095"
      by simp
    moreover have "float64 q \<le> 1 - 1 / 3600000000000 + 1 / 18014398509481984"
      using eq q(2) by linarith
    ultimately have le: "s \<le> of_int h + (1 - 1 / 3600000000000 + 1 / 18014398509481984)"
      and "s < 4096"
      unfolding s_def by linarith+
    with s(1) h'(1) have "\<bar>s\<bar> < 4096"
      by linarith
    then have "\<bar>s\<bar> < 2 powi 12"
      by simp
    from float64_error [OF this] have "\<bar>float64 s - s\<bar> \<le> 1 / 4398046511104"
      by (simp add: power_int_minus_divide)
    with le have "float64 s < of_int h + 1"
      by linarith
    then show ?thesis
      by (simp add: Hours h_def)
  next
    assume "d mod Hour \<le> Hour - 1000"
    then have "n \<le> 3599999999000"
      by (simp add: n_def Hour_def)
    then have "q \<le> 1 - 1 / 3600000000"
      by (simp add: q_def field_simps)
    with eq have le: "s \<le> of_int h + (1 - 1 / 3600000000 + 1 / 18014398509481984)"
      unfolding s_def by linarith
    from float64_error [OF abs_s] have "\<bar>float64 s - s\<bar> \<le> 1 / 4294967296"
      by (simp add: power_int_minus_divide)
    with le have "float64 s < of_int h + 1"
      by linarith
    then show ?thesis
      by (simp add: Hours h_def)
  qed
qed

lemma int64_of_Hours_nonneg:
  assumes "0 \<le> d" and "d \<le> 2 ^ 63"
  shows "int64_of_float64 (Hours d) = d sdiv Hour \<or> int64_of_float64 (Hours d) = d sdiv Hour + sgn d"
    and "d < 4096 * Hour \<or> d smod Hour \<le> Hour - 1000 \<Longrightarrow> int64_of_float64 (Hours d) = d sdiv Hour"
proof -
  note B = Hours_bounds [OF assms]
  have h0: "0 \<le> d div Hour"
    using assms(1) by (simp add: Hour_def pos_imp_zdiv_nonneg_iff)
  with B(1) have pos: "0 \<le> Hours d"
    by (smt (verit) of_int_0_le_iff order_trans)
  have exact: "int64_of_float64 (Hours d) = d sdiv Hour" if "Hours d < of_int (d div Hour) + 1"
  proof -
    from B(1) that have "\<lfloor>Hours d\<rfloor> = d div Hour"
      by (simp add: floor_unique)
    with pos show ?thesis
      by (simp add: int64_of_float64_def sdiv_smod_nonneg [OF assms(1)])
  qed
  show "int64_of_float64 (Hours d) = d sdiv Hour" if "d < 4096 * Hour \<or> d smod Hour \<le> Hour - 1000"
    using that B(3) exact by (simp add: sdiv_smod_nonneg [OF assms(1)])
  show "int64_of_float64 (Hours d) = d sdiv Hour \<or> int64_of_float64 (Hours d) = d sdiv Hour + sgn d"
  proof (cases "Hours d < of_int (d div Hour) + 1")
    case True
    then show ?thesis by (simp add: exact)
  next
    case False
    with B(2) have top: "Hours d = of_int (d div Hour + 1)"
      by simp
    have "d \<noteq> 0"
    proof
      assume "d = 0"
      then have "Hours d = 0"
        by (simp add: Hours_def Let_def)
      with top \<open>d = 0\<close> show False
        by simp
    qed
    with assms(1) have "sgn d = 1"
      by simp
    moreover from top pos have "int64_of_float64 (Hours d) = d div Hour + 1"
      by (simp only: int64_of_float64_def floor_of_int if_True)
    ultimately show ?thesis
      by (simp add: sdiv_smod_nonneg [OF assms(1)])
  qed
qed

lemma int64_of_Hours:
  assumes "\<bar>d\<bar> \<le> 2 ^ 63"
  shows "int64_of_float64 (Hours d) = d sdiv Hour \<or> int64_of_float64 (Hours d) = d sdiv Hour + sgn d"
    and "\<bar>d\<bar> < 4096 * Hour \<or> \<bar>d smod Hour\<bar> \<le> Hour - 1000 \<Longrightarrow>
           int64_of_float64 (Hours d) = d sdiv Hour"
proof -
  have both: "(int64_of_float64 (Hours d) = d sdiv Hour
        \<or> int64_of_float64 (Hours d) = d sdiv Hour + sgn d)
      \<and> (\<bar>d\<bar> < 4096 * Hour \<or> \<bar>d smod Hour\<bar> \<le> Hour - 1000 \<longrightarrow>
           int64_of_float64 (Hours d) = d sdiv Hour)"
  proof (cases "0 \<le> d")
    case True
    with assms have d: "0 \<le> d" "d \<le> 2 ^ 63"
      by simp_all
    have "0 \<le> d smod Hour"
      using sdiv_smod_nonneg(2) [OF True] by (simp add: Hour_def)
    then have "\<bar>d smod Hour\<bar> = d smod Hour" "\<bar>d\<bar> = d"
      using True by simp_all
    with int64_of_Hours_nonneg [OF d] show ?thesis
      by presburger
  next
    case False
    define e where "e = - d"
    with False assms have e: "0 \<le> e" "e \<le> 2 ^ 63" and pos: "0 < e"
      by simp_all
    have d: "d = - e"
      by (simp add: e_def)
    have neg: "int64_of_float64 (Hours d) = - int64_of_float64 (Hours e)"
      by (simp only: d Hours_minus int64_of_float64_minus)
    have sd: "d sdiv Hour = - (e sdiv Hour)" "d smod Hour = - (e smod Hour)"
      by (simp_all add: d signed_divide_int_def signed_modulo_int_def)
    have sg: "sgn d = - 1" "sgn e = 1"
      using pos by (simp_all add: d)
    have "0 \<le> e smod Hour"
      using sdiv_smod_nonneg(2) [OF e(1)] by (simp add: Hour_def)
    then have ab: "\<bar>d smod Hour\<bar> = e smod Hour" "\<bar>d\<bar> = e"
      using pos by (simp_all add: sd) (simp add: d)
    from int64_of_Hours_nonneg [OF e] show ?thesis
      unfolding neg sd(1) sg ab by presburger
  qed
  from both show "int64_of_float64 (Hours d) = d sdiv Hour
      \<or> int64_of_float64 (Hours d) = d sdiv Hour + sgn d"
    by blast
  from both show "int64_of_float64 (Hours d) = d sdiv Hour"
    if "\<bar>d\<bar> < 4096 * Hour \<or> \<bar>d smod Hour\<bar> \<le> Hour - 1000"
    using that by blast
qed

lemma Sub_range: "\<bar>Sub t u\<bar> \<le> 2 ^ 63"
  by (simp add: Sub_def Let_def minDuration_def maxDuration_def abs_le_iff)

lemma Sub_exact:
  assumes "\<bar>t - u\<bar> \<le> maxDuration"
  shows "Sub t u = t - u"
  using assms by (auto simp add: Sub_def Let_def minDuration_def maxDuration_def)

section \<open>The claims about argument validation\<close>

text \<open>
  Claim C3. With a non-empty hostname that the validator accepts, validation fails
  with "--critical is required" when the critical threshold is not positive;
  otherwise with "--warning is required" when the warning threshold is not
  positive; otherwise it fails with "warning cannot be lower than Critical value"
  exactly when the warning threshold is at most the critical one, the equal case
  included, whatever the magnitudes.
\<close>

theorem checkArgs_thresholds:
  assumes "Host (plugin s) \<noteq> []" and "validate s (Host (plugin s)) ''fqdn'' = None"
  shows "(Critical (plugin s) \<le> 0 \<longrightarrow>
            fst (checkArgs w s) = (CheckStateWarning, Some (reason MissingCritical)))
       \<and> (0 < Critical (plugin s) \<and> Warning (plugin s) \<le> 0 \<longrightarrow>
            fst (checkArgs w s) = (CheckStateWarning, Some (reason MissingWarning)))
       \<and> (0 < Critical (plugin s) \<and> 0 < Warning (plugin s) \<longrightarrow>
            (fst (checkArgs w s) = (CheckStateWarning, Some (reason InvertedThresholds))
               \<longleftrightarrow> Warning (plugin s) \<le> Critical (plugin s)))"
  using assms by (simp add: checkArgs_def Let_def split: sum.splits)

theorem checkArgs_thresholds_witness:
  "fst (checkArgs (test_world test_epoch []) (state_with (test_config ''example.com'' 7 7 [] False)))
     = (CheckStateWarning, Some ''warning cannot be lower than Critical value'')
   \<and> fst (checkArgs (test_world test_epoch []) (state_with (test_config ''example.com'' 7 30 [] False)))
     = (CheckStateWarning, Some ''warning cannot be lower than Critical value'')"
proof -
  let ?eq = "state_with (test_config ''example.com'' 7 7 [] False)"
  let ?lt = "state_with (test_config ''example.com'' 7 30 [] False)"
  have host: "Host (plugin ?eq) \<noteq> []" "Host (plugin ?lt) \<noteq> []"
    by (simp_all add: state_with_def test_config_def)
  have fqdn: "validate ?eq (Host (plugin ?eq)) ''fqdn'' = None"
    "validate ?lt (Host (plugin ?lt)) ''fqdn'' = None"
    by (simp_all add: state_with_def test_config_def example_com_is_fqdn)
  show ?thesis
    using checkArgs_thresholds [OF host(1) fqdn(1), of "test_world test_epoch []"]
      checkArgs_thresholds [OF host(2) fqdn(2), of "test_world test_epoch []"]
    by (simp add: state_with_def test_config_def)
qed

text \<open>
  Claim C4. The checks run in the fixed order hostname emptiness, hostname syntax,
  thresholds, CA file, and validation stops at the first one that fails: the error
  returned is the one of the earliest failing check, and the validator and the CA
  file loader are called only for the checks up to that one.
\<close>

theorem checkArgs_first_failure:
  "snd (fst (checkArgs w s)) = map_option reason (fst (spec_validate w s))
   \<and> trace (snd (checkArgs w s)) = trace s @ snd (spec_validate w s)"
  by (simp add: checkArgs_def spec_validate_def spec_checks_def Let_def split: sum.splits)

theorem checkArgs_first_failure_witness:
  "snd (fst (checkArgs (test_world test_epoch []) (state_with (test_config [] 0 0 ''/nonexistent/ca.pem'' False))))
     = Some ''--hostname is required''
   \<and> trace (snd (checkArgs (test_world test_epoch [])
        (state_with (test_config [] 0 0 ''/nonexistent/ca.pem'' False)))) = []
   \<and> snd (fst (checkArgs (test_world test_epoch [])
        (state_with (test_config ''example.com'' 7 30 ''/nonexistent/ca.pem'' False))))
     = Some ''warning cannot be lower than Critical value''
   \<and> trace (snd (checkArgs (test_world test_epoch [])
        (state_with (test_config ''example.com'' 7 30 ''/nonexistent/ca.pem'' False))))
     = [ValidateVar ''example.com'' ''fqdn'']"
  using checkArgs_first_failure [of "test_world test_epoch []"
        "state_with (test_config [] 0 0 ''/nonexistent/ca.pem'' False)"]
    checkArgs_first_failure [of "test_world test_epoch []"
        "state_with (test_config ''example.com'' 7 30 ''/nonexistent/ca.pem'' False)"]
  by (simp add: spec_validate_def spec_checks_def state_with_def test_config_def
      example_com_is_fqdn)

text \<open>
  Claim C10. On every error return of checkArgs the global TLS configuration is
  what it was at entry. Its root certificates change only when the CA bundle has
  loaded, to that bundle, and its InsecureSkipVerify flag changes only when
  checkArgs returns without an error.
\<close>

theorem checkArgs_error_keeps_tlsConfig:
  "(snd (fst (checkArgs w s)) \<noteq> None \<longrightarrow> tlsConfig (snd (checkArgs w s)) = tlsConfig s)
   \<and> (RootCAs (tlsConfig (snd (checkArgs w s))) \<noteq> RootCAs (tlsConfig s) \<longrightarrow>
        snd (fst (checkArgs w s)) = None
        \<and> (\<exists>pool. LoadCACerts w (TrustedCAFile (plugin s)) = Inr pool
              \<and> RootCAs (tlsConfig (snd (checkArgs w s))) = Some pool))
   \<and> (tls_InsecureSkipVerify (tlsConfig (snd (checkArgs w s)))
          \<noteq> tls_InsecureSkipVerify (tlsConfig s) \<longrightarrow>
        snd (fst (checkArgs w s)) = None)"
  by (auto simp add: checkArgs_def Let_def split: sum.splits if_splits)

theorem checkArgs_error_keeps_tlsConfig_witness:
  "snd (fst (checkArgs (test_world test_epoch [])
      (state_with (test_config ''example.com'' 30 7 ''/nonexistent/ca.pem'' True))))
     = Some ''error loading specified CA file''
   \<and> tlsConfig (snd (checkArgs (test_world test_epoch [])
      (state_with (test_config ''example.com'' 30 7 ''/nonexistent/ca.pem'' True))))
     = tls_Config_zero"
proof -
  let ?s = "state_with (test_config ''example.com'' 30 7 ''/nonexistent/ca.pem'' True)"
  have err: "snd (fst (checkArgs (test_world test_epoch []) ?s)) = Some ''error loading specified CA file''"
    by (simp add: checkArgs_def Let_def state_with_def test_config_def example_com_is_fqdn
        test_world_def test_LoadCACerts_def)
  then have "snd (fst (checkArgs (test_world test_epoch []) ?s)) \<noteq> None"
    by simp
  with checkArgs_error_keeps_tlsConfig [of "test_world test_epoch []" ?s]
  have "tlsConfig (snd (checkArgs (test_world test_epoch []) ?s)) = tlsConfig ?s"
    by blast
  with err show ?thesis
    by (simp add: state_with_def)
qed

text \<open>
  Claim C8. The default of the hostname option is the non-empty string
  "http://localhost:80/". An invocation that supplies no hostname therefore fails
  validation with "hostname is not a valid FQDN", which is how the program then
  ends, and "--hostname is required" is returned exactly when the hostname is
  supplied as the empty string.
\<close>

theorem default_hostname_fails_fqdn_check:
  "hostname_Default = ''http://localhost:80/'' \<and> hostname_Default \<noteq> []
   \<and> (arg_hostname iv = None \<longrightarrow>
        fst (checkArgs w (initial_state iv)) = (CheckStateWarning, Some (reason InvalidHostname))
        \<and> fst (main w iv) = Return (CheckStateWarning, Some (reason InvalidHostname)))
   \<and> (snd (fst (checkArgs w (initial_state iv))) = Some (reason MissingHostname)
        \<longleftrightarrow> arg_hostname iv = Some [])"
proof -
  have default: "hostname_Default = ''http://localhost:80/'' \<and> hostname_Default \<noteq> []"
    by (simp add: hostname_Default_def)
  have absent: "fst (checkArgs w (initial_state iv)) = (CheckStateWarning, Some (reason InvalidHostname))"
    if "arg_hostname iv = None"
    using that default default_hostname_not_fqdn
    by (simp add: checkArgs_def initial_state_def options_def or_default_def Let_def)
  have empty: "snd (fst (checkArgs w (initial_state iv))) = Some (reason MissingHostname)
      \<longleftrightarrow> arg_hostname iv = Some []"
  proof (cases "arg_hostname iv")
    case None
    with absent show ?thesis by simp
  next
    case (Some h)
    then have "Host (plugin (initial_state iv)) = h"
      by (simp add: initial_state_def options_def or_default_def)
    then show ?thesis
      using Some by (simp add: checkArgs_def Let_def split: sum.splits)
  qed
  have run: "fst (main w iv) = Return (CheckStateWarning, Some (reason InvalidHostname))"
    if "arg_hostname iv = None"
    using absent [OF that]
    by (cases "checkArgs w (initial_state iv)") (simp add: main_def goCheckWorkflow_def)
  from default absent run empty show ?thesis by blast
qed

theorem default_hostname_fails_fqdn_check_witness:
  "fst (main (test_world test_epoch []) (given_hostname None))
     = Return (CheckStateWarning, Some ''hostname is not a valid FQDN'')
   \<and> snd (fst (checkArgs (test_world test_epoch []) (initial_state (given_hostname (Some [])))))
     = Some ''--hostname is required''
   \<and> snd (fst (checkArgs (test_world test_epoch []) (initial_state (given_hostname (Some ''example.com'')))))
     = None"
proof -
  have ok: "snd (fst (checkArgs (test_world test_epoch []) (initial_state (given_hostname (Some ''example.com'')))))
     = None"
    by (simp add: checkArgs_def Let_def initial_state_def options_def or_default_def
        given_hostname_def example_com_is_fqdn)
  show ?thesis
    using default_hostname_fails_fqdn_check [of "given_hostname None" "test_world test_epoch []"]
      default_hostname_fails_fqdn_check [of "given_hostname (Some [])" "test_world test_epoch []"] ok
    by (simp add: given_hostname_def)
qed



section \<open>The claims about the expiry check\<close>

text \<open>
  What executeCheck returns is decided by the answer of \<^verbatim>\<open>tls.Dial\<close> for the
  address and the global TLS configuration, and by nothing else of the network.
\<close>

lemma executeCheck_result:
  "fst (executeCheck w s) =
    (case tls_Dial w ''tcp'' (dial_addr s) (tlsConfig s) of
       Inl err \<Rightarrow> Return (CheckStateCritical, Some err)
     | Inr conn \<Rightarrow>
         (case PeerCertificates conn of
            [] \<Rightarrow> Panic ''runtime error: index out of range [0] with length 0''
          | cert # rest \<Rightarrow>
              Return (if After (AddDate w (time_Now w) (Critical (plugin s))) (NotAfter cert)
                        then CheckStateCritical
                      else if After (AddDate w (time_Now w) (Warning (plugin s))) (NotAfter cert)
                        then CheckStateWarning
                      else CheckStateOK, None)))"
  by (simp add: executeCheck_def tls_Dial_call_def Let_def split: sum.splits list.splits)

lemma checkArgs_derives_policy:
  assumes "tlsConfig s = tls_Config_zero" and "snd (fst (checkArgs w s)) = None"
  shows "tlsConfig (snd (checkArgs w s)) = TLSTrustPolicy w (plugin s)"
  using assms
  by (auto simp add: checkArgs_def Let_def TLSTrustPolicy_def tls_Config_zero_def
      split: sum.splits if_splits)

text \<open>
  Claim C2. When checkArgs, started with the zero TLS configuration of the program,
  succeeds, the global TLS configuration is the trust policy of the specification:
  its InsecureSkipVerify is the configured flag; its root certificates are the pool
  that LoadCACerts returned for the trusted CA file when one is configured, and nil
  (the platform's roots) when none is. executeCheck then dials with that policy and
  no other: what it returns is decided by the answer of tls.Dial for the address
  and that policy, and the one dial on its trace carries that policy.
\<close>

theorem dial_uses_validated_tlsConfig:
  assumes "tlsConfig s = tls_Config_zero"
    and "checkArgs w s = ((status, None), s')"
  shows "tlsConfig s' = TLSTrustPolicy w (plugin s)
       \<and> tls_InsecureSkipVerify (tlsConfig s') = InsecureSkipVerify (plugin s)
       \<and> (TrustedCAFile (plugin s) = [] \<longrightarrow> RootCAs (tlsConfig s') = None)
       \<and> (TrustedCAFile (plugin s) \<noteq> [] \<longrightarrow>
            (\<exists>pool. LoadCACerts w (TrustedCAFile (plugin s)) = Inr pool
               \<and> RootCAs (tlsConfig s') = Some pool))
       \<and> dialed (trace (snd (executeCheck w s')))
            = dialed (trace s) @ [TLSTrustPolicy w (plugin s)]
       \<and> fst (executeCheck w s') =
            (case tls_Dial w ''tcp'' (dial_addr s) (TLSTrustPolicy w (plugin s)) of
               Inl err \<Rightarrow> Return (CheckStateCritical, Some err)
             | Inr conn \<Rightarrow>
                 (case PeerCertificates conn of
                    [] \<Rightarrow> Panic ''runtime error: index out of range [0] with length 0''
                  | cert # rest \<Rightarrow>
                      Return (if After (AddDate w (time_Now w) (Critical (plugin s))) (NotAfter cert)
                                then CheckStateCritical
                              else if After (AddDate w (time_Now w) (Warning (plugin s))) (NotAfter cert)
                                then CheckStateWarning
                              else CheckStateOK, None)))"
proof -
  from assms(2) have ok: "snd (fst (checkArgs w s)) = None" and s': "s' = snd (checkArgs w s)"
    by simp_all
  have policy: "tlsConfig s' = TLSTrustPolicy w (plugin s)"
    using checkArgs_derives_policy [OF assms(1) ok] by (simp add: s')
  have plugin: "plugin s' = plugin s"
    by (simp add: s' checkArgs_plugin)
  have "dialed (trace (snd (executeCheck w s'))) = dialed (trace s) @ [tlsConfig s']"
    by (simp add: executeCheck_dialed s' checkArgs_no_dial)
  then have dialed: "dialed (trace (snd (executeCheck w s')))
      = dialed (trace s) @ [TLSTrustPolicy w (plugin s)]"
    by (simp only: policy)
  have flag: "tls_InsecureSkipVerify (tlsConfig s') = InsecureSkipVerify (plugin s)"
    using checkArgs_tlsConfig_on_success(1) [OF ok] by (simp add: s')
  have none: "RootCAs (tlsConfig s') = None" if "TrustedCAFile (plugin s) = []"
    using checkArgs_tlsConfig_on_success(2) [OF ok that] assms(1)
    by (simp add: s' tls_Config_zero_def)
  have pool: "\<exists>pool. LoadCACerts w (TrustedCAFile (plugin s)) = Inr pool
      \<and> RootCAs (tlsConfig s') = Some pool" if "TrustedCAFile (plugin s) \<noteq> []"
    using checkArgs_tlsConfig_on_success(3) [OF ok that] by (auto simp add: s')
  have result: "fst (executeCheck w s') =
      (case tls_Dial w ''tcp'' (dial_addr s) (TLSTrustPolicy w (plugin s)) of
         Inl err \<Rightarrow> Return (CheckStateCritical, Some err)
       | Inr conn \<Rightarrow>
           (case PeerCertificates conn of
              [] \<Rightarrow> Panic ''runtime error: index out of range [0] with length 0''
            | cert # rest \<Rightarrow>
                Return (if After (AddDate w (time_Now w) (Critical (plugin s))) (NotAfter cert)
                          then CheckStateCritical
                        else if After (AddDate w (time_Now w) (Warning (plugin s))) (NotAfter cert)
                          then CheckStateWarning
                        else CheckStateOK, None)))"
    using executeCheck_result [of w s'] by (simp only: policy plugin)
  from policy flag none pool dialed result show ?thesis
    by blast
qed

text \<open>
  The test of the repository for this: the server's certificate is signed by the
  test CA, verification is on, and the CA file is configured. With the derived
  policy the dial succeeds and the check is OK; the same dial with the zero
  configuration is refused for an unknown authority.
\<close>

theorem dial_uses_validated_tlsConfig_witness:
  "fst (executeCheck (test_world test_epoch [\<lparr>NotAfter = test_epoch + 365 * (24 * Hour)\<rparr>])
      (validated (test_world test_epoch [\<lparr>NotAfter = test_epoch + 365 * (24 * Hour)\<rparr>])
         (test_config ''localhost.localdomain'' 30 7 ''/tmp/ca.pem'' False)))
     = Return (CheckStateOK, None)
   \<and> dialed (trace (snd (executeCheck (test_world test_epoch [\<lparr>NotAfter = test_epoch + 365 * (24 * Hour)\<rparr>])
      (validated (test_world test_epoch [\<lparr>NotAfter = test_epoch + 365 * (24 * Hour)\<rparr>])
         (test_config ''localhost.localdomain'' 30 7 ''/tmp/ca.pem'' False)))))
     = [\<lparr> RootCAs = Some (CertPool [''Test CA'']), tls_InsecureSkipVerify = False \<rparr>]
   \<and> tls_Dial (test_world test_epoch [\<lparr>NotAfter = test_epoch + 365 * (24 * Hour)\<rparr>])
        ''tcp'' ''localhost.localdomain:443'' tls_Config_zero
     = Inl ''tls: failed to verify certificate: x509: certificate signed by unknown authority''"
proof -
  let ?w = "test_world test_epoch [\<lparr>NotAfter = test_epoch + 365 * (24 * Hour)\<rparr>]"
  let ?c = "test_config ''localhost.localdomain'' 30 7 ''/tmp/ca.pem'' False"
  let ?policy = "\<lparr> RootCAs = Some (CertPool [''Test CA'']), tls_InsecureSkipVerify = False \<rparr>"
  have zero: "tlsConfig (state_with ?c) = tls_Config_zero"
    by (simp add: state_with_def)
  have "fst (checkArgs ?w (state_with ?c)) = (CheckStateOK, None)"
    by code_simp
  then have run: "checkArgs ?w (state_with ?c) = ((CheckStateOK, None), validated ?w ?c)"
    by (simp add: validated_def prod_eq_iff)
  note T = dial_uses_validated_tlsConfig [OF zero run]
  have policy: "TLSTrustPolicy ?w (plugin (state_with ?c)) = ?policy"
    by code_simp
  have empty: "dialed (trace (state_with ?c)) = []"
    by (simp add: state_with_def)
  from T have "dialed (trace (snd (executeCheck ?w (validated ?w ?c))))
      = dialed (trace (state_with ?c)) @ [TLSTrustPolicy ?w (plugin (state_with ?c))]"
    by blast
  then have dialed: "dialed (trace (snd (executeCheck ?w (validated ?w ?c)))) = [?policy]"
    by (simp only: policy empty append_Nil)
  from T have "fst (executeCheck ?w (validated ?w ?c)) =
      (case tls_Dial ?w ''tcp'' (dial_addr (state_with ?c)) (TLSTrustPolicy ?w (plugin (state_with ?c))) of
         Inl err \<Rightarrow> Return (CheckStateCritical, Some err)
       | Inr conn \<Rightarrow>
           (case PeerCertificates conn of
              [] \<Rightarrow> Panic ''runtime error: index out of range [0] with length 0''
            | cert # rest \<Rightarrow>
                Return (if After (AddDate ?w (time_Now ?w) (Critical (plugin (state_with ?c)))) (NotAfter cert)
                          then CheckStateCritical
                        else if After (AddDate ?w (time_Now ?w) (Warning (plugin (state_with ?c)))) (NotAfter cert)
                          then CheckStateWarning
                        else CheckStateOK, None)))"
    by blast
  also have "\<dots> = Return (CheckStateOK, None)"
    by code_simp
  finally have result: "fst (executeCheck ?w (validated ?w ?c)) = Return (CheckStateOK, None)" .
  have refused: "tls_Dial ?w ''tcp'' ''localhost.localdomain:443'' tls_Config_zero
      = Inl ''tls: failed to verify certificate: x509: certificate signed by unknown authority''"
    by code_simp
  from result dialed refused show ?thesis
    by simp
qed

text \<open>
  Claim C1, as the code has it. After a handshake that yields a leaf certificate,
  with thresholds 0 < critical < warning, executeCheck returns CRITICAL when the
  instant timeNow.AddDate(0, 0, critical) lies strictly after notAfter, otherwise
  WARNING when timeNow.AddDate(0, 0, warning) lies strictly after notAfter,
  otherwise OK. Where AddDate gives the instant 24 hours times the day count after
  now, for both thresholds, these are the bounds now + critical days > notAfter and
  now + warning days > notAfter. The bounds are strict: the code tests them with
  Time.After.
\<close>

theorem executeCheck_classification:
  assumes "tls_Dial w ''tcp'' (dial_addr s) (tlsConfig s) = Inr conn"
    and "PeerCertificates conn = cert # rest"
    and "0 < Critical (plugin s)" and "Critical (plugin s) < Warning (plugin s)"
  shows "fst (executeCheck w s) =
      Return (if NotAfter cert < AddDate w (time_Now w) (Critical (plugin s))
                then CheckStateCritical
              else if NotAfter cert < AddDate w (time_Now w) (Warning (plugin s))
                then CheckStateWarning
              else CheckStateOK, None)
    \<and> (AddDate w (time_Now w) (Critical (plugin s))
           = time_Now w + Critical (plugin s) * (24 * Hour)
         \<and> AddDate w (time_Now w) (Warning (plugin s))
           = time_Now w + Warning (plugin s) * (24 * Hour) \<longrightarrow>
       fst (executeCheck w s) =
         Return (if NotAfter cert < time_Now w + Critical (plugin s) * (24 * Hour)
                   then CheckStateCritical
                 else if NotAfter cert < time_Now w + Warning (plugin s) * (24 * Hour)
                   then CheckStateWarning
                 else CheckStateOK, None))"
  using executeCheck_connected [OF assms(1,2)] by (simp add: After_def)

text \<open>
  The instance of the claim: warning 30, critical 7, notAfter = now + 3 days, on a
  host in UTC.
\<close>

theorem executeCheck_classification_witness:
  "AddDate (test_world test_epoch [\<lparr>NotAfter = test_epoch + 3 * (24 * Hour)\<rparr>]) test_epoch 7
     = test_epoch + 7 * (24 * Hour)
   \<and> AddDate (test_world test_epoch [\<lparr>NotAfter = test_epoch + 3 * (24 * Hour)\<rparr>]) test_epoch 30
     = test_epoch + 30 * (24 * Hour)
   \<and> fst (executeCheck (test_world test_epoch [\<lparr>NotAfter = test_epoch + 3 * (24 * Hour)\<rparr>])
        (validated (test_world test_epoch [\<lparr>NotAfter = test_epoch + 3 * (24 * Hour)\<rparr>])
           (test_config ''example.com'' 30 7 [] True)))
     = Return (CheckStateCritical, None)"
proof -
  let ?w = "test_world test_epoch [\<lparr>NotAfter = test_epoch + 3 * (24 * Hour)\<rparr>]"
  let ?s = "validated ?w (test_config ''example.com'' 30 7 [] True)"
  have dial: "tls_Dial ?w ''tcp'' (dial_addr ?s) (tlsConfig ?s)
      = Inr \<lparr>PeerCertificates = [\<lparr>NotAfter = test_epoch + 3 * (24 * Hour)\<rparr>]\<rparr>"
    unfolding validated_def by code_simp
  have chain: "PeerCertificates \<lparr>PeerCertificates = [\<lparr>NotAfter = test_epoch + 3 * (24 * Hour)\<rparr>]\<rparr>
      = \<lparr>NotAfter = test_epoch + 3 * (24 * Hour)\<rparr> # []"
    by simp
  have thresholds: "Critical (plugin ?s) = 7" "Warning (plugin ?s) = 30"
    by (simp_all add: validated_def checkArgs_plugin state_with_def test_config_def)
  have positive: "0 < Critical (plugin ?s)" and order: "Critical (plugin ?s) < Warning (plugin ?s)"
    unfolding thresholds by simp_all
  have now: "time_Now ?w = test_epoch"
    by (simp add: test_world_def)
  have utc: "AddDate ?w test_epoch 7 = test_epoch + 7 * (24 * Hour)"
    "AddDate ?w test_epoch 30 = test_epoch + 30 * (24 * Hour)"
    by (simp_all add: test_world_def days_later_def)
  from executeCheck_classification [OF dial chain positive order]
  have "fst (executeCheck ?w ?s) =
      Return (if NotAfter \<lparr>NotAfter = test_epoch + 3 * (24 * Hour)\<rparr> < test_epoch + 7 * (24 * Hour)
                then CheckStateCritical
              else if NotAfter \<lparr>NotAfter = test_epoch + 3 * (24 * Hour)\<rparr> < test_epoch + 30 * (24 * Hour)
                then CheckStateWarning
              else CheckStateOK, None)"
    unfolding thresholds now using utc by blast
  then have "fst (executeCheck ?w ?s) = Return (CheckStateCritical, None)"
    by (simp add: Hour_def)
  with utc show ?thesis
    by simp
qed

text \<open>
  The claim as the specification words it, with the bounds not strict, fails where
  now + critical days is exactly notAfter: on a host in UTC, warning 30, critical
  7, a certificate that expires exactly 7 days from now. The critical bound of the
  specification holds, yet executeCheck returns WARNING.
\<close>

theorem executeCheck_boundary_counterexample:
  "NotAfter \<lparr>NotAfter = test_epoch + 7 * (24 * Hour)\<rparr>
      \<le> time_Now (test_world test_epoch [\<lparr>NotAfter = test_epoch + 7 * (24 * Hour)\<rparr>]) + 7 * (24 * Hour)
   \<and> AddDate (test_world test_epoch [\<lparr>NotAfter = test_epoch + 7 * (24 * Hour)\<rparr>]) test_epoch 7
      = test_epoch + 7 * (24 * Hour)
   \<and> Critical (plugin (validated (test_world test_epoch [\<lparr>NotAfter = test_epoch + 7 * (24 * Hour)\<rparr>])
         (test_config ''example.com'' 30 7 [] True))) = 7
   \<and> Warning (plugin (validated (test_world test_epoch [\<lparr>NotAfter = test_epoch + 7 * (24 * Hour)\<rparr>])
         (test_config ''example.com'' 30 7 [] True))) = 30
   \<and> fst (executeCheck (test_world test_epoch [\<lparr>NotAfter = test_epoch + 7 * (24 * Hour)\<rparr>])
        (validated (test_world test_epoch [\<lparr>NotAfter = test_epoch + 7 * (24 * Hour)\<rparr>])
           (test_config ''example.com'' 30 7 [] True)))
      = Return (CheckStateWarning, None)"
  unfolding validated_def by code_simp

text \<open>
  Claim C7, as the code has it. With critical < warning, whenever the test that the
  code makes for CRITICAL holds for the leaf certificate (the instant
  timeNow.AddDate(0, 0, critical) is strictly after notAfter), executeCheck returns
  CRITICAL, not WARNING, because that test comes first. The test for WARNING holds
  as well, provided AddDate for the warning threshold is not earlier than AddDate
  for the critical one.
\<close>

theorem critical_takes_precedence:
  assumes "tls_Dial w ''tcp'' (dial_addr s) (tlsConfig s) = Inr conn"
    and "PeerCertificates conn = cert # rest"
    and "Critical (plugin s) < Warning (plugin s)"
    and "After (AddDate w (time_Now w) (Critical (plugin s))) (NotAfter cert)"
  shows "fst (executeCheck w s) = Return (CheckStateCritical, None)
       \<and> fst (executeCheck w s) \<noteq> Return (CheckStateWarning, None)
       \<and> (AddDate w (time_Now w) (Critical (plugin s))
             \<le> AddDate w (time_Now w) (Warning (plugin s)) \<longrightarrow>
            After (AddDate w (time_Now w) (Warning (plugin s))) (NotAfter cert))"
proof -
  have "fst (executeCheck w s) = Return (CheckStateCritical, None)"
    using executeCheck_connected [OF assms(1,2)] assms(4) by simp
  moreover have "After (AddDate w (time_Now w) (Warning (plugin s))) (NotAfter cert)"
    if "AddDate w (time_Now w) (Critical (plugin s)) \<le> AddDate w (time_Now w) (Warning (plugin s))"
    using that assms(4) by (simp add: After_def)
  ultimately show ?thesis
    by simp
qed

theorem critical_takes_precedence_witness:
  "After (AddDate (test_world test_epoch [\<lparr>NotAfter = test_epoch + 5 * (24 * Hour)\<rparr>]) test_epoch 7)
      (test_epoch + 5 * (24 * Hour))
   \<and> After (AddDate (test_world test_epoch [\<lparr>NotAfter = test_epoch + 5 * (24 * Hour)\<rparr>]) test_epoch 30)
      (test_epoch + 5 * (24 * Hour))
   \<and> fst (executeCheck (test_world test_epoch [\<lparr>NotAfter = test_epoch + 5 * (24 * Hour)\<rparr>])
        (validated (test_world test_epoch [\<lparr>NotAfter = test_epoch + 5 * (24 * Hour)\<rparr>])
           (test_config ''example.com'' 30 7 [] True)))
      = Return (CheckStateCritical, None)"
proof -
  let ?w = "test_world test_epoch [\<lparr>NotAfter = test_epoch + 5 * (24 * Hour)\<rparr>]"
  let ?s = "validated ?w (test_config ''example.com'' 30 7 [] True)"
  have dial: "tls_Dial ?w ''tcp'' (dial_addr ?s) (tlsConfig ?s)
      = Inr \<lparr>PeerCertificates = [\<lparr>NotAfter = test_epoch + 5 * (24 * Hour)\<rparr>]\<rparr>"
    unfolding validated_def by code_simp
  have chain: "PeerCertificates \<lparr>PeerCertificates = [\<lparr>NotAfter = test_epoch + 5 * (24 * Hour)\<rparr>]\<rparr>
      = \<lparr>NotAfter = test_epoch + 5 * (24 * Hour)\<rparr> # []"
    by simp
  have thresholds: "Critical (plugin ?s) = 7" "Warning (plugin ?s) = 30"
    by (simp_all add: validated_def checkArgs_plugin state_with_def test_config_def)
  have now: "time_Now ?w = test_epoch"
    by (simp add: test_world_def)
  have order: "Critical (plugin ?s) < Warning (plugin ?s)"
    unfolding thresholds by simp
  have critical: "After (AddDate ?w (time_Now ?w) (Critical (plugin ?s)))
      (NotAfter \<lparr>NotAfter = test_epoch + 5 * (24 * Hour)\<rparr>)"
    unfolding thresholds now by (simp add: After_def test_world_def days_later_def Hour_def)
  have monotone: "AddDate ?w (time_Now ?w) (Critical (plugin ?s))
      \<le> AddDate ?w (time_Now ?w) (Warning (plugin ?s))"
    unfolding thresholds now by (simp add: test_world_def days_later_def Hour_def)
  from critical_takes_precedence [OF dial chain order critical] monotone
  have "fst (executeCheck ?w ?s) = Return (CheckStateCritical, None)"
    "After (AddDate ?w (time_Now ?w) (Warning (plugin ?s)))
      (NotAfter \<lparr>NotAfter = test_epoch + 5 * (24 * Hour)\<rparr>)"
    by blast+
  with critical show ?thesis
    unfolding thresholds now by simp
qed

text \<open>
  The claim with the CRITICAL condition of the specification fails at the bound.
  On a host in UTC, with warning 30 and critical 7, a certificate that expires
  exactly 7 days from now satisfies now + 7 days >= notAfter and now + 30 days >=
  notAfter, and one that expires in 7 days and 23 hours has 7 days remaining, no
  more than the critical threshold; for both executeCheck returns WARNING.
\<close>

theorem critical_condition_counterexample:
  "test_epoch + 7 * (24 * Hour)
      \<le> time_Now (test_world test_epoch [\<lparr>NotAfter = test_epoch + 7 * (24 * Hour)\<rparr>]) + 7 * (24 * Hour)
   \<and> test_epoch + 7 * (24 * Hour)
      \<le> time_Now (test_world test_epoch [\<lparr>NotAfter = test_epoch + 7 * (24 * Hour)\<rparr>]) + 30 * (24 * Hour)
   \<and> expiresInDays (test_epoch + 7 * (24 * Hour)) test_epoch = 7
   \<and> fst (executeCheck (test_world test_epoch [\<lparr>NotAfter = test_epoch + 7 * (24 * Hour)\<rparr>])
        (validated (test_world test_epoch [\<lparr>NotAfter = test_epoch + 7 * (24 * Hour)\<rparr>])
           (test_config ''example.com'' 30 7 [] True)))
      = Return (CheckStateWarning, None)
   \<and> expiresInDays (test_epoch + 7 * (24 * Hour) + 23 * Hour) test_epoch = 7
   \<and> fst (executeCheck (test_world test_epoch [\<lparr>NotAfter = test_epoch + 7 * (24 * Hour) + 23 * Hour\<rparr>])
        (validated (test_world test_epoch [\<lparr>NotAfter = test_epoch + 7 * (24 * Hour) + 23 * Hour\<rparr>])
           (test_config ''example.com'' 30 7 [] True)))
      = Return (CheckStateWarning, None)"
  unfolding validated_def by code_simp

text \<open>
  Claim C9. executeCheck indexes the peer certificates at 0 without a length check:
  it panics exactly when the dial succeeds with an empty chain of peer
  certificates. When every completed handshake presents a certificate the panic
  cannot happen, and without that it can.
\<close>

theorem executeCheck_panics_iff_empty_chain:
  "(\<exists>msg. fst (executeCheck w s) = Panic msg)
   \<longleftrightarrow> (\<exists>conn. tls_Dial w ''tcp'' (dial_addr s) (tlsConfig s)
            = Inr conn \<and> PeerCertificates conn = [])"
  by (auto simp add: executeCheck_def tls_Dial_call_def Let_def split: sum.splits list.splits)

theorem executeCheck_panics_iff_empty_chain_witness:
  "fst (executeCheck (test_world test_epoch [])
      (validated (test_world test_epoch []) (test_config ''example.com'' 30 7 [] True)))
     = Panic ''runtime error: index out of range [0] with length 0''
   \<and> (\<exists>conn. tls_Dial (test_world test_epoch []) ''tcp''
         (dial_addr (validated (test_world test_epoch []) (test_config ''example.com'' 30 7 [] True)))
         (tlsConfig (validated (test_world test_epoch []) (test_config ''example.com'' 30 7 [] True)))
        = Inr conn \<and> PeerCertificates conn = [])"
proof -
  let ?w = "test_world test_epoch []"
  let ?s = "validated ?w (test_config ''example.com'' 30 7 [] True)"
  have panic: "fst (executeCheck ?w ?s) = Panic ''runtime error: index out of range [0] with length 0''"
    unfolding validated_def by code_simp
  then have "\<exists>msg. fst (executeCheck ?w ?s) = Panic msg"
    by blast
  with executeCheck_panics_iff_empty_chain [of ?w ?s] panic show ?thesis
    by blast
qed

text \<open>
  Claim C5, as the code has it. After a handshake that yields a leaf certificate,
  the days that executeCheck prints are its hour count divided by 24 with
  truncation toward zero. The hour count is the whole hours, truncated toward zero,
  of the duration that Time.Sub returns, which is notAfter - now unless that
  exceeds the range of a Duration (about 292 years either way), where it is the
  nearest end of the range. One exception: for a duration of 4096 hours or more
  that is less than 1000 ns short of its next whole hour, the hour count is either
  that or one more in magnitude. So, outside that exception and within the range,
  the days are the specification's whole hours divided by 24 with truncation
  toward zero, which is the floor of the specification when the certificate has
  not expired.
\<close>

theorem expiresInDays_truncates:
  assumes "tls_Dial w ''tcp'' (dial_addr s) (tlsConfig s) = Inr conn"
    and "PeerCertificates conn = cert # rest"
  shows "(\<exists>pre post. printed (trace (snd (executeCheck w s))) = printed (trace s)
            @ [pre @ Sprint (expiresInHours (NotAfter cert) (time_Now w) sdiv 24)
                 @ '' days'' @ post])
       \<and> (\<not> near_next_hour (Sub (NotAfter cert) (time_Now w)) \<longrightarrow>
            expiresInHours (NotAfter cert) (time_Now w)
              = Sub (NotAfter cert) (time_Now w) sdiv Hour)
       \<and> (expiresInHours (NotAfter cert) (time_Now w)
              = Sub (NotAfter cert) (time_Now w) sdiv Hour
            \<or> expiresInHours (NotAfter cert) (time_Now w)
              = Sub (NotAfter cert) (time_Now w) sdiv Hour + sgn (Sub (NotAfter cert) (time_Now w)))
       \<and> Sub (NotAfter cert) (time_Now w)
            = max minDuration (min maxDuration (NotAfter cert - time_Now w))
       \<and> (\<bar>NotAfter cert - time_Now w\<bar> \<le> maxDuration
            \<and> \<not> near_next_hour (NotAfter cert - time_Now w) \<longrightarrow>
            expiresInDays (NotAfter cert) (time_Now w)
              = spec_hoursRemaining (NotAfter cert) (time_Now w) sdiv 24)
       \<and> (time_Now w \<le> NotAfter cert \<and> NotAfter cert - time_Now w \<le> maxDuration
            \<and> \<not> near_next_hour (NotAfter cert - time_Now w) \<longrightarrow>
            expiresInDays (NotAfter cert) (time_Now w)
              = spec_daysRemaining (NotAfter cert) (time_Now w))"
proof -
  let ?na = "NotAfter cert" and ?now = "time_Now w"
  let ?d = "Sub ?na ?now"
  note H = int64_of_Hours [OF Sub_range [of ?na ?now]]
  have printed: "\<exists>pre post. printed (trace (snd (executeCheck w s))) = printed (trace s)
      @ [pre @ Sprint (expiresInHours ?na ?now sdiv 24) @ '' days'' @ post]"
    using executeCheck_printed [OF assms] by (simp add: expiresInDays_def)
  have exact: "expiresInHours ?na ?now = ?d sdiv Hour" if "\<not> near_next_hour ?d"
  proof -
    from that have "\<bar>?d\<bar> < 4096 * Hour \<or> \<bar>?d smod Hour\<bar> \<le> Hour - 1000"
      by (auto simp add: near_next_hour_def)
    from H(2) [OF this] show ?thesis
      by (simp add: expiresInHours_def)
  qed
  have either: "expiresInHours ?na ?now = ?d sdiv Hour
      \<or> expiresInHours ?na ?now = ?d sdiv Hour + sgn ?d"
    using H(1) by (simp add: expiresInHours_def)
  have clamp: "?d = max minDuration (min maxDuration (?na - ?now))"
    by (simp add: Sub_def Let_def minDuration_def maxDuration_def)
  have hours: "expiresInDays ?na ?now = spec_hoursRemaining ?na ?now sdiv 24"
    if "\<bar>?na - ?now\<bar> \<le> maxDuration" "\<not> near_next_hour (?na - ?now)"
  proof -
    from that(1) have "?d = ?na - ?now"
      by (rule Sub_exact)
    with that(2) exact show ?thesis
      by (simp add: expiresInDays_def spec_hoursRemaining_def)
  qed
  have days: "expiresInDays ?na ?now = spec_daysRemaining ?na ?now"
    if "?now \<le> ?na" "?na - ?now \<le> maxDuration" "\<not> near_next_hour (?na - ?now)"
  proof -
    let ?h = "spec_hoursRemaining ?na ?now"
    from that(1,2) have "\<bar>?na - ?now\<bar> \<le> maxDuration"
      by simp
    from hours [OF this that(3)] have "expiresInDays ?na ?now = ?h sdiv 24" .
    moreover from that(1) have "0 \<le> ?h"
      by (simp add: spec_hoursRemaining_def signed_divide_int_def Hour_def sgn_if
          pos_imp_zdiv_nonneg_iff)
    then have "?h sdiv 24 = ?h div 24"
      by (simp add: signed_divide_int_def sgn_if)
    moreover have "?h div 24 = \<lfloor>(of_int ?h :: rat) / of_int 24\<rfloor>"
      by (simp only: floor_divide_of_int_eq)
    ultimately show ?thesis
      by (simp add: spec_daysRemaining_def)
  qed
  from printed exact either clamp hours days show ?thesis
    by blast
qed

text \<open>
  The instance of the claim, a certificate that expires in 47 hours reports 1 day,
  and the certificate of the repository's tests that expires in 365 days.
\<close>

theorem expiresInDays_truncates_witness:
  "expiresInDays (test_epoch + 47 * Hour) test_epoch = 1
   \<and> spec_daysRemaining (test_epoch + 47 * Hour) test_epoch = 1
   \<and> printed (trace (snd (executeCheck (test_world test_epoch [\<lparr>NotAfter = test_epoch + 47 * Hour\<rparr>])
        (validated (test_world test_epoch [\<lparr>NotAfter = test_epoch + 47 * Hour\<rparr>])
           (test_config ''example.com'' 30 7 [] True)))))
      = [''critical: cert expires in 1 days'']
   \<and> expiresInDays (test_epoch + 365 * (24 * Hour)) test_epoch = 365
   \<and> spec_daysRemaining (test_epoch + 365 * (24 * Hour)) test_epoch = 365"
proof -
  let ?w = "test_world test_epoch [\<lparr>NotAfter = test_epoch + 47 * Hour\<rparr>]"
  let ?s = "validated ?w (test_config ''example.com'' 30 7 [] True)"
  let ?y = "test_world test_epoch [\<lparr>NotAfter = test_epoch + 365 * (24 * Hour)\<rparr>]"
  let ?t = "validated ?y (test_config ''example.com'' 30 7 [] True)"
  have dial: "tls_Dial ?w ''tcp'' (dial_addr ?s) (tlsConfig ?s)
      = Inr \<lparr>PeerCertificates = [\<lparr>NotAfter = test_epoch + 47 * Hour\<rparr>]\<rparr>"
    "tls_Dial ?y ''tcp'' (dial_addr ?t) (tlsConfig ?t)
      = Inr \<lparr>PeerCertificates = [\<lparr>NotAfter = test_epoch + 365 * (24 * Hour)\<rparr>]\<rparr>"
    unfolding validated_def by code_simp+
  have chain: "PeerCertificates \<lparr>PeerCertificates = [\<lparr>NotAfter = test_epoch + 47 * Hour\<rparr>]\<rparr>
      = \<lparr>NotAfter = test_epoch + 47 * Hour\<rparr> # []"
    "PeerCertificates \<lparr>PeerCertificates = [\<lparr>NotAfter = test_epoch + 365 * (24 * Hour)\<rparr>]\<rparr>
      = \<lparr>NotAfter = test_epoch + 365 * (24 * Hour)\<rparr> # []"
    by simp_all
  have now: "time_Now ?w = test_epoch" "time_Now ?y = test_epoch"
    by (simp_all add: test_world_def)
  have range: "test_epoch \<le> test_epoch + 47 * Hour"
    "test_epoch + 47 * Hour - test_epoch \<le> maxDuration"
    "\<not> near_next_hour (test_epoch + 47 * Hour - test_epoch)"
    "test_epoch \<le> test_epoch + 365 * (24 * Hour)"
    "test_epoch + 365 * (24 * Hour) - test_epoch \<le> maxDuration"
    "\<not> near_next_hour (test_epoch + 365 * (24 * Hour) - test_epoch)"
    by code_simp+
  have spec: "spec_daysRemaining (test_epoch + 47 * Hour) test_epoch = 1"
    "spec_daysRemaining (test_epoch + 365 * (24 * Hour)) test_epoch = 365"
    by code_simp+
  have out: "printed (trace (snd (executeCheck ?w ?s))) = [''critical: cert expires in 1 days'']"
    unfolding validated_def by code_simp
  from expiresInDays_truncates [OF dial(1) chain(1)] range(1-3)
  have short: "expiresInDays (test_epoch + 47 * Hour) test_epoch
      = spec_daysRemaining (test_epoch + 47 * Hour) test_epoch"
    unfolding now by simp
  from expiresInDays_truncates [OF dial(2) chain(2)] range(4-6)
  have year: "expiresInDays (test_epoch + 365 * (24 * Hour)) test_epoch
      = spec_daysRemaining (test_epoch + 365 * (24 * Hour)) test_epoch"
    unfolding now by simp
  from short year spec out show ?thesis
    by simp
qed

text \<open>
  The claim as the specification words it fails in three places. A certificate
  that expired 47 hours ago (the handshake succeeds when verification is skipped)
  is reported with -1 days, since Go's integer division truncates, where the floor
  is -2. And 1 ns after a full second, a certificate with notAfter 4104 hours after
  that second has 4103 whole hours left, which is 170 days, but \<^verbatim>\<open>Hours\<close> rounds
  4103.99999999999972 to the float64 4104, and 171 days are reported. And for a
  certificate with notAfter 10^19 ns (about 317 years) from now, \<^verbatim>\<open>Sub\<close> returns
  the largest Duration, 2562047 hours, and 106751 days are reported where the
  specification's whole hours, 2777777, make 115740.
\<close>

theorem expiresInDays_counterexample:
  "spec_daysRemaining test_epoch (test_epoch + 47 * Hour) = - 2
   \<and> expiresInDays test_epoch (test_epoch + 47 * Hour) = - 1
   \<and> printed (trace (snd (executeCheck (test_world (test_epoch + 47 * Hour) [\<lparr>NotAfter = test_epoch\<rparr>])
        (validated (test_world (test_epoch + 47 * Hour) [\<lparr>NotAfter = test_epoch\<rparr>])
           (test_config ''example.com'' 30 7 [] True)))))
      = [''critical: cert expires in -1 days'']
   \<and> spec_hoursRemaining (test_epoch + 4104 * Hour) (test_epoch + 1) = 4103
   \<and> spec_daysRemaining (test_epoch + 4104 * Hour) (test_epoch + 1) = 170
   \<and> expiresInHours (test_epoch + 4104 * Hour) (test_epoch + 1) = 4104
   \<and> expiresInDays (test_epoch + 4104 * Hour) (test_epoch + 1) = 171
   \<and> printed (trace (snd (executeCheck (test_world (test_epoch + 1) [\<lparr>NotAfter = test_epoch + 4104 * Hour\<rparr>])
        (validated (test_world (test_epoch + 1) [\<lparr>NotAfter = test_epoch + 4104 * Hour\<rparr>])
           (test_config ''example.com'' 30 7 [] True)))))
      = [''certificate for example.com:443 expires in 171 days'' @ [CHR 0x0A]]
   \<and> spec_hoursRemaining (test_epoch + 10000000000000000000) test_epoch = 2777777
   \<and> spec_daysRemaining (test_epoch + 10000000000000000000) test_epoch = 115740
   \<and> expiresInHours (test_epoch + 10000000000000000000) test_epoch = 2562047
   \<and> expiresInDays (test_epoch + 10000000000000000000) test_epoch = 106751"
  unfolding validated_def by code_simp

end
